theory Spec2Isabelle
  imports Main "HOL-Library.Word"
begin

unbundle bit_operations_syntax

section \<open>The target-agnostic USB device controller driver (machine/usb/dcd.go)\<close>

text \<open>
  Go's fixed-width integers are words (\<open>uint8\<close> is \<open>8 word\<close>, \<open>uint16\<close> is
  \<open>16 word\<close>, \<open>uint32\<close> is \<open>32 word\<close>, \<open>uint64\<close> is \<open>64 word\<close>); Go's \<open>int\<close>
  holds only small indices and counts here and is \<open>int\<close>. A conversion between
  unsigned widths is \<open>ucast\<close>, \<open><<\<close> is \<open>push_bit\<close>, \<open>>>\<close> is \<open>drop_bit\<close>.
  A run-time panic of Go (index or slice bound out of range) is a value of
  type \<open>panic\<close>, returned as \<open>Inl\<close>.
\<close>

datatype panic = IndexOutOfRange | SliceOutOfRange

subsection \<open>SETUP packet (dcdSetup)\<close>

record dcdSetup =
  bmRequestType :: "8 word"
  bRequest :: "8 word"
  wValue :: "16 word"
  wIndex :: "16 word"
  wLength :: "16 word"

text \<open>The zero value \<open>dcdSetup{}\<close>.\<close>

definition dcdSetup_zero :: dcdSetup where
  "dcdSetup_zero =
     \<lparr> bmRequestType = 0, bRequest = 0, wValue = 0, wIndex = 0, wLength = 0 \<rparr>"

text \<open>Method \<open>(*dcdSetup).set(u uint64)\<close>, returning the receiver as written.\<close>

definition dcdSetup_set :: "64 word \<Rightarrow> dcdSetup" where
  "dcdSetup_set u =
     \<lparr> bmRequestType = ucast (u AND 0xFF),
       bRequest = ucast (drop_bit 8 (u AND 0xFF00)),
       wValue = ucast (drop_bit 16 (u AND 0xFFFF0000)),
       wIndex = ucast (drop_bit 32 (u AND 0xFFFF00000000)),
       wLength = ucast (drop_bit 48 (u AND 0xFFFF000000000000)) \<rparr>"

text \<open>Method \<open>(dcdSetup).pack() uint64\<close>.\<close>

definition dcdSetup_pack :: "dcdSetup \<Rightarrow> 64 word" where
  "dcdSetup_pack s =
     push_bit 0 (ucast (bmRequestType s) AND 0xFF) OR
     push_bit 8 (ucast (bRequest s) AND 0xFF) OR
     push_bit 16 (ucast (wValue s) AND 0xFFFF) OR
     push_bit 32 (ucast (wIndex s) AND 0xFFFF) OR
     push_bit 48 (ucast (wLength s) AND 0xFFFF)"

text \<open>
  Modelled from the spec: the request-type masks of descriptor.go, which is
  not among the sources. The spec places the direction in bit 7 of
  \<open>bmRequestType\<close> (0 = OUT, 1 = IN), the type in bits 5-6
  (Standard, Class, Vendor) and the recipient in bits 0-4
  (Device, Interface, Endpoint, Other).
\<close>

definition descRequestTypeDirMsk :: "8 word" where "descRequestTypeDirMsk = 0x80"
definition descRequestTypeDirPos :: nat where "descRequestTypeDirPos = 7"
definition descRequestTypeDirOut :: "8 word" where "descRequestTypeDirOut = 0x00"
definition descRequestTypeDirIn :: "8 word" where "descRequestTypeDirIn = 0x80"
definition descRequestTypeTypeMsk :: "8 word" where "descRequestTypeTypeMsk = 0x60"
definition descRequestTypeTypeStandard :: "8 word" where "descRequestTypeTypeStandard = 0x00"
definition descRequestTypeTypeClass :: "8 word" where "descRequestTypeTypeClass = 0x20"
definition descRequestTypeTypeVendor :: "8 word" where "descRequestTypeTypeVendor = 0x40"
definition descRequestTypeRecipientMsk :: "8 word" where "descRequestTypeRecipientMsk = 0x1F"
definition descRequestTypeRecipientDevice :: "8 word" where "descRequestTypeRecipientDevice = 0x00"
definition descRequestTypeRecipientInterface :: "8 word" where "descRequestTypeRecipientInterface = 0x01"
definition descRequestTypeRecipientEndpoint :: "8 word" where "descRequestTypeRecipientEndpoint = 0x02"

text \<open>Method \<open>(dcdSetup).direction() uint8\<close>.\<close>

definition dcdSetup_direction :: "dcdSetup \<Rightarrow> 8 word" where
  "dcdSetup_direction s =
     drop_bit descRequestTypeDirPos (bmRequestType s AND descRequestTypeDirMsk)"

text \<open>Method \<open>(dcdSetup).equals(t dcdSetup) bool\<close>.\<close>

definition dcdSetup_equals :: "dcdSetup \<Rightarrow> dcdSetup \<Rightarrow> bool" where
  "dcdSetup_equals s t \<longleftrightarrow>
     bmRequestType s = bmRequestType t \<and> bRequest s = bRequest t \<and>
     wValue s = wValue t \<and> wIndex s = wIndex t \<and> wLength s = wLength t"

subsection \<open>Device state (dcdState) and the controller (dcd)\<close>

type_synonym dcdState = "8 word"

definition dcdStateNotReady :: dcdState where "dcdStateNotReady = 0"
definition dcdStateDefault :: dcdState where "dcdStateDefault = 1"
definition dcdStateAddressed :: dcdState where "dcdStateAddressed = 2"
definition dcdStateConfigured :: dcdState where "dcdStateConfigured = 3"
definition dcdStateSuspended :: dcdState where "dcdStateSuspended = 4"

text \<open>
  Type \<open>class\<close> is declared outside the sources; the driver reads its fields
  \<open>id\<close> and \<open>config\<close> (an \<open>int\<close>: \<open>d.cc.config = int(sup.wValue)\<close>).
\<close>

record usb_class =
  class_id :: int
  class_config :: int

text \<open>
  \<open>allocDHW(port, i, speed, &dcdInstance[i])\<close> is declared outside the sources.
  Its result, the pointer stored in the controller, is recorded with the
  arguments it was called with; \<open>Speed\<close> is an enumeration of the same absent
  file, kept as a number.
\<close>

datatype dhw_ref = DHW int nat nat

record dcd =
  dcd_dhw :: "dhw_ref option"
  dcd_core :: "int option"
  dcd_port :: int
  dcd_cc :: usb_class
  dcd_id :: int
  dcd_st :: "8 word"

text \<open>Methods \<open>(*dcd).state()\<close> and \<open>(*dcd).setState(state) (ok bool)\<close>.\<close>

definition state :: "dcd \<Rightarrow> dcdState" where
  "state d = dcd_st d"

definition setState :: "dcdState \<Rightarrow> dcd \<Rightarrow> bool \<times> dcd" where
  "setState st d =
     (let curr = state d;
          ok = (if st = dcdStateNotReady then True
                else if st = dcdStateDefault then
                  curr = dcdStateNotReady \<or> curr = dcdStateDefault
                else if st = dcdStateAddressed then
                  curr = dcdStateDefault
                else if st = dcdStateConfigured then
                  curr = dcdStateAddressed \<or> curr = dcdStateConfigured \<or>
                  curr = dcdStateSuspended
                else if st = dcdStateSuspended then
                  curr = dcdStateAddressed \<or> curr = dcdStateConfigured \<or>
                  curr = dcdStateSuspended
                else False)
      in if ok then (ok, d\<lparr>dcd_st := st\<rparr>) else (ok, d))"

text \<open>
  The transition table of the specification (section 3), written from its
  words: the target and the prior states it accepts.
\<close>

definition spec_accepts :: "dcdState \<Rightarrow> dcdState \<Rightarrow> bool" where
  "spec_accepts s t \<longleftrightarrow>
     t = dcdStateNotReady \<or>
     t = dcdStateDefault \<and> s \<in> {dcdStateNotReady, dcdStateDefault} \<or>
     t = dcdStateAddressed \<and> s = dcdStateDefault \<or>
     t = dcdStateConfigured \<and>
       s \<in> {dcdStateAddressed, dcdStateConfigured, dcdStateSuspended} \<or>
     t = dcdStateSuspended \<and>
       s \<in> {dcdStateAddressed, dcdStateConfigured, dcdStateSuspended}"

subsection \<open>Constants and tables declared outside the sources\<close>

text \<open>
  Modelled from the spec: the request codes of descriptor.go, which is not
  among the sources, with the values of the dispatch tables of section 4.D.
\<close>

definition descRequestStandardGetStatus :: "8 word" where "descRequestStandardGetStatus = 0x00"
definition descRequestStandardClearFeature :: "8 word" where "descRequestStandardClearFeature = 0x01"
definition descRequestStandardSetFeature :: "8 word" where "descRequestStandardSetFeature = 0x03"
definition descRequestStandardSetAddress :: "8 word" where "descRequestStandardSetAddress = 0x05"
definition descRequestStandardGetDescriptor :: "8 word" where "descRequestStandardGetDescriptor = 0x06"
definition descRequestStandardGetConfiguration :: "8 word" where "descRequestStandardGetConfiguration = 0x08"
definition descRequestStandardSetConfiguration :: "8 word" where "descRequestStandardSetConfiguration = 0x09"
definition descCDCRequestSetLineCoding :: "8 word" where "descCDCRequestSetLineCoding = 0x20"
definition descCDCRequestSetControlLineState :: "8 word" where "descCDCRequestSetControlLineState = 0x22"
definition descCDCRequestSendBreak :: "8 word" where "descCDCRequestSendBreak = 0x23"
definition descHIDRequestGetReport :: "8 word" where "descHIDRequestGetReport = 0x01"
definition descHIDRequestSetReport :: "8 word" where "descHIDRequestSetReport = 0x09"
definition descHIDRequestSetIdle :: "8 word" where "descHIDRequestSetIdle = 0x0A"

text \<open>
  Modelled from the spec: the descriptor types and fixed lengths of
  descriptor.go, with the values of section 4.E (device descriptor of 18
  bytes, qualifier of 10) and the 7 bytes of a CDC line coding (section 4.D).
  The type constants are compared with \<open>wValue >> 8\<close>, a \<open>uint16\<close>.
\<close>

definition descTypeDevice :: "16 word" where "descTypeDevice = 0x01"
definition descTypeConfigure :: "16 word" where "descTypeConfigure = 0x02"
definition descTypeString :: "16 word" where "descTypeString = 0x03"
definition descTypeQualification :: "16 word" where "descTypeQualification = 0x06"
definition descTypeOtherSpeedConfiguration :: "16 word" where "descTypeOtherSpeedConfiguration = 0x07"
definition descTypeHID :: "16 word" where "descTypeHID = 0x21"
definition descTypeHIDReport :: "16 word" where "descTypeHIDReport = 0x22"
definition descLengthDevice :: "8 word" where "descLengthDevice = 18"
definition descLengthQualification :: "8 word" where "descLengthQualification = 10"
definition descCDCACMLineCodingSize :: nat where "descCDCACMLineCodingSize = 7"

text \<open>
  The constants and read-only tables the spec gives no value for are
  parameters of the model. A constant has the type of the expression the
  source uses it in: one converted by \<open>uint8(...)\<close> or assigned to a \<open>uint8\<close>
  is a byte (Go rejects a constant conversion that overflows), one compared
  with \<open>wIndex\<close> or \<open>wLength\<close> is a \<open>uint16\<close>. \<open>coreCount\<close> is the length of
  the array \<open>coreInstance\<close>. The \<open>descCommon\<close> strings are ASCII, so that
  \<open>range s\<close> yields each byte with its position.
\<close>

record platform =
  descCDCACMCount :: int
  descHIDCount :: int
  coreCount :: int
  classDeviceCDCACM :: int
  classDeviceHID :: int
  descCDCACMInterfaceCtrl :: "16 word"
  descCDCACMConfigSize :: "8 word"
  descHIDConfigSize :: "8 word"
  descHIDSxSize :: "16 word"
  descHIDInterfaceCount :: int
  descHIDInterfaceKeyboard :: "16 word"
  descHIDInterfaceMouse :: "16 word"
  descHIDInterfaceSerial :: "16 word"
  descHIDInterfaceJoystick :: "16 word"
  descHIDInterfaceMediaKey :: "16 word"
  descHIDConfigKeyboardPos :: "8 word"
  descHIDConfigMousePos :: "8 word"
  descHIDConfigSerialPos :: "8 word"
  descHIDConfigJoystickPos :: "8 word"
  descHIDConfigMediaKeyPos :: "8 word"
  descHIDReportKeyboard :: "8 word list"
  descHIDReportMouse :: "8 word list"
  descHIDReportSerial :: "8 word list"
  descHIDReportJoystick :: "8 word list"
  descHIDReportMediaKey :: "8 word list"
  descLengthInterface :: "8 word"
  descCommonManufacturer :: string
  descCommonProduct :: string
  descCommonSerialNumber :: string

definition dcdCount :: "platform \<Rightarrow> int" where
  "dcdCount p = descCDCACMCount p + descHIDCount p"

text \<open>
  The class tables \<open>descCDCACM[]\<close> and \<open>descHID[]\<close> are global variables of
  descriptor.go: per configuration the string descriptors by language, the
  device, qualifier and configuration descriptors, the response scratch
  \<open>dx\<close> and the control scratch \<open>cx\<close>. The driver writes \<open>dx\<close>, \<open>cx\<close>, the
  string descriptors and the keyboard LED state, so the tables are part of
  the state. Their members are arrays: a slice of one has the array's
  length as its capacity.
\<close>

record descStringLanguage =
  language :: "16 word"
  descriptor :: "8 word list list"

record descCDCACMClass =
  acm_locale :: "descStringLanguage list"
  acm_device :: "8 word list"
  acm_qualif :: "8 word list"
  acm_config :: "8 word list"
  acm_dx :: "8 word list"
  acm_cx :: "8 word list"

record descHIDClass =
  hid_locale :: "descStringLanguage list"
  hid_device :: "8 word list"
  hid_qualif :: "8 word list"
  hid_config :: "8 word list"
  hid_dx :: "8 word list"
  hid_cx :: "8 word list"
  hid_keyboard_led :: "8 word"

subsection \<open>Go's indexing, slicing and copy\<close>

definition go_index :: "'a list \<Rightarrow> int \<Rightarrow> panic + 'a" where
  "go_index xs i =
     (if 0 \<le> i \<and> i < int (length xs) then Inr (xs ! nat i) else Inl IndexOutOfRange)"

definition go_slice :: "'a list \<Rightarrow> nat \<Rightarrow> nat \<Rightarrow> panic + 'a list" where
  "go_slice xs lo hi =
     (if lo \<le> hi \<and> hi \<le> length xs then Inr (take (hi - lo) (drop lo xs))
      else Inl SliceOutOfRange)"

definition go_copy :: "'a list \<Rightarrow> 'a list \<Rightarrow> 'a list" where
  "go_copy dst src = take (length dst) src @ drop (length src) dst"

text \<open>
  Modelled from the spec: \<open>packU32\<close> is a helper declared outside the sources;
  the spec reads the four bytes as a little-endian \<open>u32\<close>.
\<close>

definition packU32 :: "8 word list \<Rightarrow> 32 word" where
  "packU32 b =
     ucast (b ! 0) OR push_bit 8 (ucast (b ! 1)) OR
     push_bit 16 (ucast (b ! 2)) OR push_bit 24 (ucast (b ! 3))"

subsection \<open>The hardware abstraction (dhw) as seen from the driver\<close>

text \<open>
  The methods of the embedded \<open>*dhw\<close> are declared outside the sources. A
  call of one is recorded, with its arguments, in the order it is made; the
  value \<open>endpointStatus\<close> returns is what the hardware holds. Addresses
  passed to the hardware name the buffer they point into. The fields
  \<open>setup\<close> and \<open>stage\<close>, which the driver reaches through the embedded
  pointer, belong to the same object.
\<close>

datatype addr =
  NullPtr | StatusBuffer | CDCACM_cx nat | CDCACM_dx nat | HID_cx nat | HID_dx nat

datatype hal_call =
    EndpointEnable nat bool nat
  | EndpointClearFeature "8 word"
  | EndpointSetFeature "8 word"
  | EndpointStatus "8 word"
  | SetDeviceAddress "16 word"
  | ControlTransmit addr "32 word" bool
  | ControlReceive addr "32 word" bool
  | ControlStall bool "8 word"
  | ControlStatusBuffer "8 word list"
  | FlushCache addr nat
  | UartConfigure
  | UartSetLineCoding "8 word list"
  | UartSetLineState "16 word"
  | SerialConfigure
  | KeyboardConfigure
  | MouseConfigure
  | JoystickConfigure
  | EnableSOF bool int

datatype dcdStage =
    dcdStageSetup
  | dcdStageDataIn
  | dcdStageDataOut
  | dcdStageStatusIn
  | dcdStageStatusOut
  | dcdStageStall

record dhw =
  dhw_setup :: dcdSetup
  dhw_stage :: dcdStage
  dhw_calls :: "hal_call list"
  dhw_endpointStatus :: "8 word \<Rightarrow> 16 word"

text \<open>
  One controller with its hardware object and the class tables it shares
  with the rest of the package.
\<close>

record machine =
  m_dcd :: dcd
  m_dhw :: dhw
  descCDCACM :: "descCDCACMClass list"
  descHID :: "descHIDClass list"

definition hal :: "hal_call \<Rightarrow> machine \<Rightarrow> machine" where
  "hal c m = m\<lparr>m_dhw := (m_dhw m)\<lparr>dhw_calls := dhw_calls (m_dhw m) @ [c]\<rparr>\<rparr>"

subsection \<open>Descriptor responder\<close>

text \<open>
  The string branch of \<open>controlDescriptorCDCACM\<close> and \<open>controlDescriptorHID\<close>
  is the same text in both, but for the suffix of the product string. It is
  embedded once: \<open>stringFor\<close> is the inner \<open>switch uint8(sup.wValue)\<close>,
  \<open>stringRunes\<close> the loop \<open>for n, c := range s\<close>, \<open>stringRewrite\<close> the writes
  to \<open>sd\<close>, \<open>stringSearch\<close> the loop \<open>for code := range locale\<close> and
  \<open>stringDescriptor\<close> the \<open>if 0 == uint8(sup.wValue)\<close> around them. \<open>sd\<close> is a
  slice of the table's own array, so what is written to it is written to
  the table; \<open>None\<close> is the nil slice. The parameter \<open>sup\<close> of the source is
  written \<open>req\<close> throughout, \<open>sup\<close> being the supremum of HOL.
\<close>

definition stringFor :: "platform \<Rightarrow> string \<Rightarrow> dcdSetup \<Rightarrow> string" where
  "stringFor p suffix req =
     (let i = (ucast (wValue req) :: 8 word) in
      if i = 1 then descCommonManufacturer p
      else if i = 2 then descCommonProduct p @ suffix
      else if i = 3 then descCommonSerialNumber p
      else [])"

fun stringRunes :: "(nat \<times> char) list \<Rightarrow> 8 word list \<Rightarrow> panic + 8 word list" where
  "stringRunes [] sd = Inr sd"
| "stringRunes ((n, c) # rs) sd =
     (if 2 + 2 * n \<ge> length sd then Inr sd
      else if 3 + 2 * n \<ge> length sd then Inl IndexOutOfRange
      else stringRunes rs (sd[2 + 2 * n := of_char c, 3 + 2 * n := 0]))"

definition stringRewrite :: "string \<Rightarrow> 8 word list \<Rightarrow> panic + 8 word list" where
  "stringRewrite s sd =
     (if length sd < 2 then Inl IndexOutOfRange
      else stringRunes (zip [0..<length s] s)
             (sd[0 := of_nat (2 + 2 * length s), 1 := ucast descTypeString]))"

fun stringSearch ::
  "string \<Rightarrow> dcdSetup \<Rightarrow> descStringLanguage list \<Rightarrow>
     panic + descStringLanguage list \<times> 8 word list option" where
  "stringSearch s req [] = Inr ([], None)"
| "stringSearch s req (l # ls) =
     (if wIndex req = language l \<and>
         uint (wValue req AND 0xFF) < int (length (descriptor l)) then
        (let i = unat (wValue req AND 0xFF) in
         case stringRewrite s (descriptor l ! i) of
           Inl e \<Rightarrow> Inl e
         | Inr sd \<Rightarrow> Inr (l\<lparr>descriptor := (descriptor l)[i := sd]\<rparr> # ls, Some sd))
      else
        (case stringSearch s req ls of
           Inl e \<Rightarrow> Inl e
         | Inr (ls', sd) \<Rightarrow> Inr (l # ls', sd)))"

definition stringDescriptor ::
  "platform \<Rightarrow> string \<Rightarrow> dcdSetup \<Rightarrow> descStringLanguage list \<Rightarrow>
     panic + descStringLanguage list \<times> 8 word list option" where
  "stringDescriptor p suffix req locale =
     (if (ucast (wValue req) :: 8 word) = 0 then
        (let code = (if uint (wIndex req) \<ge> int (length locale) then 0
                     else uint (wIndex req)) in
         case go_index locale code of
           Inl e \<Rightarrow> Inl e
         | Inr l \<Rightarrow>
            (case go_index (descriptor l) (uint (wValue req AND 0xFF)) of
               Inl e \<Rightarrow> Inl e
             | Inr sd \<Rightarrow> Inr (locale, Some sd)))
      else stringSearch (stringFor p suffix req) req locale)"

text \<open>
  The statement \<open>if nil != sd && len(sd) >= 0 { dxn = sd[0]; copy(dx, sd[:dxn]) }\<close>
  that ends the string branch: the new \<open>dx\<close> and \<open>dxn\<close>.
\<close>

definition stringCopy ::
  "8 word list \<Rightarrow> 8 word list option \<Rightarrow> panic + 8 word list \<times> 8 word" where
  "stringCopy dx sdo =
     (case sdo of
        None \<Rightarrow> Inr (dx, 0)
      | Some sd \<Rightarrow>
         (case go_index sd 0 of
            Inl e \<Rightarrow> Inl e
          | Inr n \<Rightarrow>
             (case go_slice sd 0 (unat n) of
                Inl e \<Rightarrow> Inl e
              | Inr xs \<Rightarrow> Inr (go_copy dx xs, n))))"

text \<open>
  \<open>descriptorCDCACM\<close> is the statement \<open>switch sup.wValue >> 8\<close> of
  \<open>controlDescriptorCDCACM\<close>, on the table entry \<open>acm\<close>: it returns the entry
  as written and the length \<open>dxn\<close>. \<open>controlDescriptorCDCACM\<close> is the whole
  method.
\<close>

definition descriptorCDCACM ::
  "platform \<Rightarrow> dcdSetup \<Rightarrow> descCDCACMClass \<Rightarrow> panic + descCDCACMClass \<times> 8 word" where
  "descriptorCDCACM p req acm =
     (let ty = drop_bit 8 (wValue req) in
      if ty = descTypeDevice then
        (case go_slice (acm_device acm) 0 (unat descLengthDevice) of
           Inl e \<Rightarrow> Inl e
         | Inr xs \<Rightarrow> Inr (acm\<lparr>acm_dx := go_copy (acm_dx acm) xs\<rparr>, descLengthDevice))
      else if ty = descTypeConfigure then
        (case go_slice (acm_config acm) 0 (unat (descCDCACMConfigSize p)) of
           Inl e \<Rightarrow> Inl e
         | Inr xs \<Rightarrow>
             Inr (acm\<lparr>acm_dx := go_copy (acm_dx acm) xs\<rparr>, descCDCACMConfigSize p))
      else if ty = descTypeString then
        (if length (acm_locale acm) = 0 then Inr (acm, 0)
         else
           (case stringDescriptor p '' CDC-ACM'' req (acm_locale acm) of
              Inl e \<Rightarrow> Inl e
            | Inr (locale, sdo) \<Rightarrow>
               (case stringCopy (acm_dx acm) sdo of
                  Inl e \<Rightarrow> Inl e
                | Inr (dx, dxn) \<Rightarrow>
                    Inr (acm\<lparr>acm_locale := locale, acm_dx := dx\<rparr>, dxn))))
      else if ty = descTypeQualification then
        (case go_slice (acm_qualif acm) 0 (unat descLengthQualification) of
           Inl e \<Rightarrow> Inl e
         | Inr xs \<Rightarrow>
             Inr (acm\<lparr>acm_dx := go_copy (acm_dx acm) xs\<rparr>, descLengthQualification))
      else if ty = descTypeOtherSpeedConfiguration then Inr (acm, 0)
      else Inr (acm, 0))"

definition controlDescriptorCDCACM ::
  "platform \<Rightarrow> dcdSetup \<Rightarrow> machine \<Rightarrow> panic + machine" where
  "controlDescriptorCDCACM p req m =
     (let i = class_config (dcd_cc (m_dcd m)) - 1 in
      case go_index (descCDCACM m) i of
        Inl e \<Rightarrow> Inl e
      | Inr acm \<Rightarrow>
         (case descriptorCDCACM p req acm of
            Inl e \<Rightarrow> Inl e
          | Inr (acm', dxn) \<Rightarrow>
             (let m' = m\<lparr>descCDCACM := (descCDCACM m)[nat i := acm']\<rparr> in
              if dxn > 0 then
                (let dxn' = (if dxn > ucast (wLength req) then ucast (wLength req)
                             else dxn) in
                 if acm_dx acm' = [] then Inl IndexOutOfRange
                 else Inr (hal (ControlTransmit (CDCACM_dx (nat i)) (ucast dxn') False)
                            (hal (FlushCache (CDCACM_dx (nat i)) (unat dxn')) m')))
              else Inr m')))"

text \<open>The same two parts of \<open>controlDescriptorHID\<close>.\<close>

definition descriptorHID ::
  "platform \<Rightarrow> dcdSetup \<Rightarrow> descHIDClass \<Rightarrow> panic + descHIDClass \<times> 8 word" where
  "descriptorHID p req hid =
     (let ty = drop_bit 8 (wValue req) in
      if ty = descTypeDevice then
        (case go_slice (hid_device hid) 0 (unat descLengthDevice) of
           Inl e \<Rightarrow> Inl e
         | Inr xs \<Rightarrow> Inr (hid\<lparr>hid_dx := go_copy (hid_dx hid) xs\<rparr>, descLengthDevice))
      else if ty = descTypeConfigure then
        (case go_slice (hid_config hid) 0 (unat (descHIDConfigSize p)) of
           Inl e \<Rightarrow> Inl e
         | Inr xs \<Rightarrow>
             Inr (hid\<lparr>hid_dx := go_copy (hid_dx hid) xs\<rparr>, descHIDConfigSize p))
      else if ty = descTypeString then
        (if length (hid_locale hid) = 0 then Inr (hid, 0)
         else
           (case stringDescriptor p '' HID'' req (hid_locale hid) of
              Inl e \<Rightarrow> Inl e
            | Inr (locale, sdo) \<Rightarrow>
               (case stringCopy (hid_dx hid) sdo of
                  Inl e \<Rightarrow> Inl e
                | Inr (dx, dxn) \<Rightarrow>
                    Inr (hid\<lparr>hid_locale := locale, hid_dx := dx\<rparr>, dxn))))
      else if ty = descTypeQualification then
        (case go_slice (hid_qualif hid) 0 (unat descLengthQualification) of
           Inl e \<Rightarrow> Inl e
         | Inr xs \<Rightarrow>
             Inr (hid\<lparr>hid_dx := go_copy (hid_dx hid) xs\<rparr>, descLengthQualification))
      else if ty = descTypeOtherSpeedConfiguration then Inr (hid, 0)
      else if ty = descTypeHID then
        (let pos = (if wIndex req = descHIDInterfaceKeyboard p then descHIDConfigKeyboardPos p
                    else if wIndex req = descHIDInterfaceMouse p then descHIDConfigMousePos p
                    else if wIndex req = descHIDInterfaceSerial p then descHIDConfigSerialPos p
                    else if wIndex req = descHIDInterfaceJoystick p then descHIDConfigJoystickPos p
                    else if wIndex req = descHIDInterfaceMediaKey p then descHIDConfigMediaKeyPos p
                    else 0) in
         if 0 \<noteq> pos then
           (case go_slice (hid_config hid) (unat pos) (unat (pos + descLengthInterface p)) of
              Inl e \<Rightarrow> Inl e
            | Inr xs \<Rightarrow>
                Inr (hid\<lparr>hid_dx := go_copy (hid_dx hid) xs\<rparr>, descLengthInterface p))
         else Inr (hid, 0))
      else if ty = descTypeHIDReport then
        (if wIndex req = descHIDInterfaceKeyboard p then
           Inr (hid\<lparr>hid_dx := go_copy (hid_dx hid) (descHIDReportKeyboard p)\<rparr>,
                of_nat (length (descHIDReportKeyboard p)))
         else if wIndex req = descHIDInterfaceMouse p then
           Inr (hid\<lparr>hid_dx := go_copy (hid_dx hid) (descHIDReportMouse p)\<rparr>,
                of_nat (length (descHIDReportMouse p)))
         else if wIndex req = descHIDInterfaceSerial p then
           Inr (hid\<lparr>hid_dx := go_copy (hid_dx hid) (descHIDReportSerial p)\<rparr>,
                of_nat (length (descHIDReportSerial p)))
         else if wIndex req = descHIDInterfaceJoystick p then
           Inr (hid\<lparr>hid_dx := go_copy (hid_dx hid) (descHIDReportJoystick p)\<rparr>,
                of_nat (length (descHIDReportJoystick p)))
         else if wIndex req = descHIDInterfaceMediaKey p then
           Inr (hid\<lparr>hid_dx := go_copy (hid_dx hid) (descHIDReportMediaKey p)\<rparr>,
                of_nat (length (descHIDReportMediaKey p)))
         else Inr (hid, 0))
      else Inr (hid, 0))"

definition controlDescriptorHID ::
  "platform \<Rightarrow> dcdSetup \<Rightarrow> machine \<Rightarrow> panic + machine" where
  "controlDescriptorHID p req m =
     (let i = class_config (dcd_cc (m_dcd m)) - 1 in
      case go_index (descHID m) i of
        Inl e \<Rightarrow> Inl e
      | Inr hid \<Rightarrow>
         (case descriptorHID p req hid of
            Inl e \<Rightarrow> Inl e
          | Inr (hid', dxn) \<Rightarrow>
             (let m' = m\<lparr>descHID := (descHID m)[nat i := hid']\<rparr> in
              if dxn > 0 then
                (let dxn' = (if dxn > ucast (wLength req) then ucast (wLength req)
                             else dxn) in
                 if hid_dx hid' = [] then Inl IndexOutOfRange
                 else Inr (hal (ControlTransmit (HID_dx (nat i)) (ucast dxn') False)
                            (hal (FlushCache (HID_dx (nat i)) (unat dxn')) m')))
              else Inr m')))"

subsection \<open>Events and the control-transfer dispatcher\<close>

record dcdEvent =
  ev_id :: "8 word"
  ev_setup :: dcdSetup
  ev_mask :: "32 word"

definition dcdEventInvalid :: "8 word" where "dcdEventInvalid = 0"
definition dcdEventStatusReset :: "8 word" where "dcdEventStatusReset = 1"
definition dcdEventStatusResume :: "8 word" where "dcdEventStatusResume = 2"
definition dcdEventStatusSuspend :: "8 word" where "dcdEventStatusSuspend = 3"
definition dcdEventStatusError :: "8 word" where "dcdEventStatusError = 4"
definition dcdEventDeviceReady :: "8 word" where "dcdEventDeviceReady = 5"
definition dcdEventDeviceAddress :: "8 word" where "dcdEventDeviceAddress = 6"
definition dcdEventDeviceConfiguration :: "8 word" where "dcdEventDeviceConfiguration = 7"
definition dcdEventControlSetup :: "8 word" where "dcdEventControlSetup = 8"
definition dcdEventControlComplete :: "8 word" where "dcdEventControlComplete = 9"
definition dcdEventTransferComplete :: "8 word" where "dcdEventTransferComplete = 10"
definition dcdEventTimer :: "8 word" where "dcdEventTimer = 11"

text \<open>
  Writes to the fields the driver owns: \<open>d.st\<close> through \<open>setState\<close>,
  \<open>d.cc.config\<close>, \<open>d.setup\<close> and \<open>d.stage\<close>.
\<close>

definition doSetState :: "dcdState \<Rightarrow> machine \<Rightarrow> bool \<times> machine" where
  "doSetState st m =
     (case setState st (m_dcd m) of (ok, d) \<Rightarrow> (ok, m\<lparr>m_dcd := d\<rparr>))"

definition set_config :: "int \<Rightarrow> machine \<Rightarrow> machine" where
  "set_config c m =
     m\<lparr>m_dcd := (m_dcd m)\<lparr>dcd_cc := (dcd_cc (m_dcd m))\<lparr>class_config := c\<rparr>\<rparr>\<rparr>"

definition set_setup :: "dcdSetup \<Rightarrow> machine \<Rightarrow> machine" where
  "set_setup req m = m\<lparr>m_dhw := (m_dhw m)\<lparr>dhw_setup := req\<rparr>\<rparr>"

definition set_stage :: "dcdStage \<Rightarrow> machine \<Rightarrow> machine" where
  "set_stage stg m = m\<lparr>m_dhw := (m_dhw m)\<lparr>dhw_stage := stg\<rparr>\<rparr>"

text \<open>
  Method \<open>(*dcd).controlComplete()\<close>. The table entry is taken
  (\<open>acm := &descCDCACM[d.cc.config-1]\<close>) before the interface is looked at.
\<close>

definition controlComplete :: "platform \<Rightarrow> machine \<Rightarrow> panic + machine" where
  "controlComplete p m =
     (let req = dhw_setup (m_dhw m);
          cc = dcd_cc (m_dcd m);
          i = class_config cc - 1 in
      if bmRequestType req AND descRequestTypeTypeMsk = descRequestTypeTypeClass then
        (if bmRequestType req AND (descRequestTypeRecipientMsk OR descRequestTypeDirMsk)
              = (descRequestTypeRecipientInterface OR descRequestTypeDirOut) then
           (if bRequest req = descCDCRequestSetLineCoding then
              (if class_id cc = classDeviceCDCACM p then
                 (case go_index (descCDCACM m) i of
                    Inl e \<Rightarrow> Inl e
                  | Inr acm \<Rightarrow>
                      if wIndex req = descCDCACMInterfaceCtrl p then
                        Inr (hal (UartSetLineCoding (acm_cx acm)) m)
                      else Inr m)
               else Inr m)
            else if bRequest req = descCDCRequestSetControlLineState then
              (if class_id cc = classDeviceCDCACM p then
                 (if wIndex req = descCDCACMInterfaceCtrl p then
                    Inr (hal (UartSetLineState (wValue req)) m)
                  else Inr m)
               else Inr m)
            else if bRequest req = descHIDRequestSetReport then
              (if class_id cc = classDeviceHID p then
                 (case go_index (descHID m) i of
                    Inl e \<Rightarrow> Inl e
                  | Inr hid \<Rightarrow>
                      if wIndex req = descHIDInterfaceKeyboard p then
                        (if drop_bit 8 (wValue req) = descTypeConfigure then
                           (if 1 = wLength req then
                              (case go_index (hid_cx hid) 0 of
                                 Inl e \<Rightarrow> Inl e
                               | Inr b \<Rightarrow>
                                   Inr (hal (ControlTransmit NullPtr 0 False)
                                         (m\<lparr>descHID := (descHID m)
                                              [nat i := hid\<lparr>hid_keyboard_led := b\<rparr>]\<rparr>)))
                            else Inr m)
                         else Inr m)
                      else if wIndex req = descHIDInterfaceSerial p then
                        (if drop_bit 8 (wValue req) = descTypeString then
                           (if wLength req \<ge> 4 then
                              (case go_slice (hid_cx hid) 0 4 of
                                 Inl e \<Rightarrow> Inl e
                               | Inr b \<Rightarrow>
                                   if 0x68C245A9 = packU32 b then
                                     Inr (hal (EnableSOF True (descHIDInterfaceCount p)) m)
                                   else Inr m)
                            else Inr m)
                         else Inr m)
                      else Inr m)
               else Inr m)
            else Inr m)
         else Inr m)
      else Inr m)"

text \<open>
  Methods \<open>(*dcd).event(ev)\<close> and \<open>(*dcd).controlSetup(sup) dcdStage\<close>, which
  call each other: \<open>event\<close> calls \<open>controlSetup\<close> on \<open>dcdEventControlSetup\<close>,
  and \<open>controlSetup\<close> calls \<open>event\<close> with \<open>dcdEventDeviceConfiguration\<close>. Every
  path of \<open>controlSetup\<close> that leaves its \<open>switch\<close> statements without a
  \<open>return\<close> reaches the final \<open>return dcdStageStall\<close>.
\<close>

function event :: "platform \<Rightarrow> dcdEvent \<Rightarrow> machine \<Rightarrow> panic + machine"
  and controlSetup :: "platform \<Rightarrow> dcdSetup \<Rightarrow> machine \<Rightarrow> panic + dcdStage \<times> machine"
where
  "event p ev m =
     (if ev_id ev = dcdEventStatusReset then
        Inr (snd (doSetState dcdStateNotReady m))
      else if ev_id ev = dcdEventStatusResume then
        Inr (snd (doSetState dcdStateConfigured m))
      else if ev_id ev = dcdEventStatusSuspend then
        Inr (snd (doSetState dcdStateSuspended m))
      else if ev_id ev = dcdEventDeviceReady then
        (case doSetState dcdStateDefault m of
           (ok, m') \<Rightarrow> if ok then Inr (hal (EndpointEnable 0 True 0) m') else Inr m')
      else if ev_id ev = dcdEventDeviceAddress then
        Inr (snd (doSetState dcdStateAddressed m))
      else if ev_id ev = dcdEventDeviceConfiguration then
        Inr (snd (doSetState dcdStateConfigured m))
      else if ev_id ev = dcdEventControlSetup then
        (case controlSetup p (ev_setup ev) (set_setup (ev_setup ev) m) of
           Inl e \<Rightarrow> Inl e
         | Inr (stg, m') \<Rightarrow>
             if stg = dcdStageStall then
               Inr (hal (ControlStall True (dcdSetup_direction (ev_setup ev)))
                     (set_stage stg m'))
             else Inr (set_stage stg m'))
      else if ev_id ev = dcdEventControlComplete then
        (case controlComplete p m of
           Inl e \<Rightarrow> Inl e
         | Inr m' \<Rightarrow> Inr (set_setup dcdSetup_zero m'))
      else Inr m)"
| "controlSetup p req m =
     (let ty = bmRequestType req AND descRequestTypeTypeMsk;
          rd = bmRequestType req AND (descRequestTypeRecipientMsk OR descRequestTypeDirMsk);
          cc = dcd_cc (m_dcd m);
          i = class_config cc - 1 in
      if ty = descRequestTypeTypeStandard then
        (if rd = (descRequestTypeRecipientDevice OR descRequestTypeDirOut) then
           (if bRequest req = descRequestStandardSetAddress then
              Inr (dcdStageStatusOut,
                   hal (ControlReceive NullPtr 0 False)
                     (hal (SetDeviceAddress (wValue req)) m))
            else if bRequest req = descRequestStandardSetConfiguration then
              (let c = uint (wValue req);
                   c' = (if 0 = c \<or> c > dcdCount p then 1 else c) in
               case event p \<lparr>ev_id = dcdEventDeviceConfiguration,
                              ev_setup = dcdSetup_zero, ev_mask = 0\<rparr>
                      (set_config c' m) of
                 Inl e \<Rightarrow> Inl e
               | Inr m' \<Rightarrow>
                   if class_id cc = classDeviceCDCACM p then
                     Inr (dcdStageStatusOut,
                          hal (ControlReceive NullPtr 0 False) (hal UartConfigure m'))
                   else if class_id cc = classDeviceHID p then
                     Inr (dcdStageStatusOut,
                          hal (ControlReceive NullPtr 0 False)
                            (hal JoystickConfigure
                              (hal MouseConfigure
                                (hal KeyboardConfigure (hal SerialConfigure m')))))
                   else Inr (dcdStageStatusOut, m'))
            else Inr (dcdStageStall, m))
         else if rd = (descRequestTypeRecipientDevice OR descRequestTypeDirIn) then
           (if bRequest req = descRequestStandardGetStatus then
              Inr (dcdStageDataIn,
                   hal (ControlTransmit StatusBuffer 2 False)
                     (hal (ControlStatusBuffer [0, 0]) m))
            else if bRequest req = descRequestStandardGetDescriptor then
              (if class_id cc = classDeviceCDCACM p then
                 (case controlDescriptorCDCACM p req m of
                    Inl e \<Rightarrow> Inl e
                  | Inr m' \<Rightarrow> Inr (dcdStageDataIn, m'))
               else if class_id cc = classDeviceHID p then
                 (case controlDescriptorHID p req m of
                    Inl e \<Rightarrow> Inl e
                  | Inr m' \<Rightarrow> Inr (dcdStageDataIn, m'))
               else Inr (dcdStageStall, m))
            else if bRequest req = descRequestStandardGetConfiguration then
              Inr (dcdStageDataIn,
                   hal (ControlTransmit StatusBuffer 1 False)
                     (hal (ControlStatusBuffer [of_int (class_config cc)]) m))
            else Inr (dcdStageStall, m))
         else if rd = (descRequestTypeRecipientInterface OR descRequestTypeDirIn) then
           (if bRequest req = descRequestStandardGetDescriptor then
              (if class_id cc = classDeviceCDCACM p then
                 (case controlDescriptorCDCACM p req m of
                    Inl e \<Rightarrow> Inl e
                  | Inr m' \<Rightarrow> Inr (dcdStageDataIn, m'))
               else if class_id cc = classDeviceHID p then
                 (case controlDescriptorHID p req m of
                    Inl e \<Rightarrow> Inl e
                  | Inr m' \<Rightarrow> Inr (dcdStageDataIn, m'))
               else Inr (dcdStageStall, m))
            else if bRequest req = descHIDRequestGetReport then
              (if class_id cc = classDeviceHID p then
                 (case controlDescriptorHID p req m of
                    Inl e \<Rightarrow> Inl e
                  | Inr m' \<Rightarrow> Inr (dcdStageDataIn, m'))
               else Inr (dcdStageStall, m))
            else Inr (dcdStageStall, m))
         else if rd = (descRequestTypeRecipientEndpoint OR descRequestTypeDirOut) then
           (if bRequest req = descRequestStandardClearFeature then
              Inr (dcdStageStatusOut,
                   hal (ControlReceive NullPtr 0 False)
                     (hal (EndpointClearFeature (ucast (wIndex req))) m))
            else if bRequest req = descRequestStandardSetFeature then
              Inr (dcdStageStatusOut,
                   hal (ControlReceive NullPtr 0 False)
                     (hal (EndpointSetFeature (ucast (wIndex req))) m))
            else Inr (dcdStageStall, m))
         else if rd = (descRequestTypeRecipientEndpoint OR descRequestTypeDirIn) then
           (if bRequest req = descRequestStandardGetStatus then
              (let status = dhw_endpointStatus (m_dhw m) (ucast (wIndex req)) in
               Inr (dcdStageDataIn,
                    hal (ControlTransmit StatusBuffer 2 False)
                      (hal (ControlStatusBuffer [ucast status, ucast (drop_bit 8 status)])
                        (hal (EndpointStatus (ucast (wIndex req))) m))))
            else Inr (dcdStageStall, m))
         else Inr (dcdStageStall, m))
      else if ty = descRequestTypeTypeClass then
        (if rd = (descRequestTypeRecipientInterface OR descRequestTypeDirOut) then
           (if bRequest req = descCDCRequestSetLineCoding then
              (if class_id cc = classDeviceCDCACM p then
                 (if of_nat descCDCACMLineCodingSize = wLength req then
                    (case go_index (descCDCACM m) i of
                       Inl e \<Rightarrow> Inl e
                     | Inr acm \<Rightarrow>
                         if acm_cx acm = [] then Inl IndexOutOfRange
                         else Inr (dcdStageDataOut,
                                   hal (ControlReceive (CDCACM_cx (nat i))
                                         (of_nat descCDCACMLineCodingSize) True) m))
                  else Inr (dcdStageStall, m))
               else Inr (dcdStageStall, m))
            else if bRequest req = descCDCRequestSetControlLineState then
              (if class_id cc = classDeviceCDCACM p then
                 (if wIndex req = descCDCACMInterfaceCtrl p then
                    Inr (dcdStageStatusOut, hal (ControlReceive NullPtr 0 False) m)
                  else Inr (dcdStageStall, m))
               else Inr (dcdStageStall, m))
            else if bRequest req = descCDCRequestSendBreak then
              (if class_id cc = classDeviceCDCACM p then
                 Inr (dcdStageStatusOut, hal (ControlReceive NullPtr 0 False) m)
               else Inr (dcdStageStall, m))
            else if bRequest req = descHIDRequestSetReport then
              (if class_id cc = classDeviceHID p then
                 (if wLength req \<le> descHIDSxSize p then
                    (case go_index (descHID m) i of
                       Inl e \<Rightarrow> Inl e
                     | Inr hid \<Rightarrow>
                         if hid_cx hid = [] then Inl IndexOutOfRange
                         else Inr (dcdStageDataOut,
                                   hal (ControlReceive (HID_cx (nat i))
                                         (ucast (wLength req)) True)
                                     (m\<lparr>descHID := (descHID m)
                                          [nat i := hid\<lparr>hid_cx := (hid_cx hid)[0 := 0xE9]\<rparr>]\<rparr>)))
                  else Inr (dcdStageStall, m))
               else Inr (dcdStageStall, m))
            else if bRequest req = descHIDRequestSetIdle then
              (if class_id cc = classDeviceHID p then
                 Inr (dcdStageStatusOut, hal (ControlReceive NullPtr 0 False) m)
               else Inr (dcdStageStall, m))
            else Inr (dcdStageStall, m))
         else if rd = (descRequestTypeRecipientInterface OR descRequestTypeDirIn) then
           (if bRequest req = descHIDRequestGetReport then
              (if class_id cc = classDeviceHID p then
                 Inr (dcdStageDataIn,
                      hal (ControlTransmit StatusBuffer 2 False)
                        (hal (ControlStatusBuffer [0, 0]) m))
               else Inr (dcdStageStall, m))
            else Inr (dcdStageStall, m))
         else Inr (dcdStageStall, m))
      else Inr (dcdStageStall, m))"
  by pat_completeness auto

termination
  by (relation "measure (\<lambda>x. case x of
          Inl (p, ev, m) \<Rightarrow> if ev_id ev = dcdEventControlSetup then 2 else 0
        | Inr (p, req, m) \<Rightarrow> 1)")
     (auto simp: dcdEventControlSetup_def dcdEventDeviceConfiguration_def)

declare event.simps [simp del] controlSetup.simps [simp del]

subsection \<open>Instance pool\<close>

text \<open>
  \<open>status\<close> is declared outside the sources; \<open>initDCD\<close> returns three of its
  values. The pool \<open>dcdInstance\<close> is the list of its slots and the pointer
  \<open>&dcdInstance[i]\<close> that \<open>initDCD\<close> returns is the index \<open>i\<close> (\<open>None\<close> for
  nil). \<open>initDCD_scan\<close> is the loop \<open>for i := range dcdInstance\<close> from index
  \<open>i\<close> on, with the \<open>return statusBusy\<close> that follows it. The pointer
  \<open>&coreInstance[port]\<close> is the port it indexes; taking it panics when the
  port is outside the array.
\<close>

datatype status = statusOK | statusInvalid | statusBusy

function initDCD_scan ::
  "platform \<Rightarrow> int \<Rightarrow> nat \<Rightarrow> usb_class \<Rightarrow> dcd list \<Rightarrow> nat \<Rightarrow>
     panic + dcd list \<times> nat option \<times> status" where
  "initDCD_scan p port speed cls pool i =
     (if i < length pool then
        (if dcd_core (pool ! i) = None then
           (if 0 \<le> port \<and> port < coreCount p then
              Inr (pool[i := snd (setState dcdStateNotReady
                                   ((pool ! i)\<lparr>dcd_dhw := Some (DHW port i speed),
                                               dcd_core := Some port,
                                               dcd_port := port,
                                               dcd_cc := cls,
                                               dcd_id := int i\<rparr>))],
                   Some i, statusOK)
            else Inl IndexOutOfRange)
         else initDCD_scan p port speed cls pool (Suc i))
      else Inr (pool, None, statusBusy))"
  by pat_completeness auto

termination
  by (relation "measure (\<lambda>(p, port, speed, cls, pool, i). length pool - i)") auto

declare initDCD_scan.simps [simp del]

definition initDCD ::
  "platform \<Rightarrow> int \<Rightarrow> nat \<Rightarrow> usb_class \<Rightarrow> dcd list \<Rightarrow>
     panic + dcd list \<times> nat option \<times> status" where
  "initDCD p port speed cls pool =
     (if 0 = dcdCount p then Inr (pool, None, statusInvalid)
      else if class_id cls = classDeviceCDCACM p \<and>
              (0 = class_config cls \<or> class_config cls > descCDCACMCount p) then
        Inr (pool, None, statusInvalid)
      else initDCD_scan p port speed cls pool 0)"

subsection \<open>What the specification says of the pool\<close>

text \<open>
  Written from the words of section 4.F: the violated preconditions of
  \<open>initDCD\<close> (\<open>dcdCount > 0\<close>; for CDC-ACM a configuration index from 1 to
  the CDC count), and the slot as the spec describes it after a successful
  call (HAL allocated, core, port, class and id set, state NotReady).
\<close>

definition spec_invalid :: "platform \<Rightarrow> usb_class \<Rightarrow> bool" where
  "spec_invalid p cls \<longleftrightarrow>
     dcdCount p = 0 \<or>
     class_id cls = classDeviceCDCACM p \<and>
       (class_config cls = 0 \<or> class_config cls > descCDCACMCount p)"

definition initialised :: "int \<Rightarrow> nat \<Rightarrow> usb_class \<Rightarrow> nat \<Rightarrow> dcd" where
  "initialised port speed cls i =
     \<lparr> dcd_dhw = Some (DHW port i speed), dcd_core = Some port, dcd_port = port,
       dcd_cc = cls, dcd_id = int i, dcd_st = dcdStateNotReady \<rparr>"

subsection \<open>What the specification says of the dispatch tree\<close>

text \<open>
  Written from the tables of section 4.D: the requests the dispatcher
  matches, by type (bits 5-6 of \<open>bmRequestType\<close>), recipient (bits 0-4),
  direction (bit 7), \<open>bRequest\<close> and bound class, with the conditions the
  tables put on \<open>wLength\<close> and \<open>wIndex\<close>. Any other request is one the
  fall-through rule sends to \<open>Stall\<close>.
\<close>

definition spec_matched :: "platform \<Rightarrow> usb_class \<Rightarrow> dcdSetup \<Rightarrow> bool" where
  "spec_matched p cls r \<longleftrightarrow>
     (let b = bmRequestType r;
          standard = (b AND 0x60 = 0x00);
          class = (b AND 0x60 = 0x20);
          device = (b AND 0x1F = 0);
          interface = (b AND 0x1F = 1);
          endpoint = (b AND 0x1F = 2);
          dir_in = bit b 7;
          dir_out = (\<not> bit b 7);
          cdc = (class_id cls = classDeviceCDCACM p);
          hid = (class_id cls = classDeviceHID p)
      in
        standard \<and> device \<and> dir_out \<and> bRequest r = 0x05 \<or>
        standard \<and> device \<and> dir_out \<and> bRequest r = 0x09 \<or>
        standard \<and> device \<and> dir_in \<and> bRequest r = 0x00 \<or>
        standard \<and> (device \<or> interface) \<and> dir_in \<and> bRequest r = 0x06 \<and> (cdc \<or> hid) \<or>
        standard \<and> device \<and> dir_in \<and> bRequest r = 0x08 \<or>
        standard \<and> interface \<and> dir_in \<and> bRequest r = 0x01 \<and> hid \<or>
        standard \<and> endpoint \<and> dir_out \<and> bRequest r = 0x01 \<or>
        standard \<and> endpoint \<and> dir_out \<and> bRequest r = 0x03 \<or>
        standard \<and> endpoint \<and> dir_in \<and> bRequest r = 0x00 \<or>
        class \<and> cdc \<and> interface \<and> dir_out \<and> bRequest r = 0x20 \<and> wLength r = 7 \<or>
        class \<and> cdc \<and> interface \<and> dir_out \<and> bRequest r = 0x22 \<and>
          wIndex r = descCDCACMInterfaceCtrl p \<or>
        class \<and> cdc \<and> interface \<and> dir_out \<and> bRequest r = 0x23 \<or>
        class \<and> hid \<and> interface \<and> dir_out \<and> bRequest r = 0x09 \<and>
          wLength r \<le> descHIDSxSize p \<or>
        class \<and> hid \<and> interface \<and> dir_out \<and> bRequest r = 0x0A \<or>
        class \<and> hid \<and> interface \<and> dir_in \<and> bRequest r = 0x01)"

text \<open>A result of \<open>controlSetup\<close> that is not a return of \<open>Stall\<close>.\<close>

definition not_stall :: "panic + dcdStage \<times> machine \<Rightarrow> bool" where
  "not_stall x = (case x of Inl e \<Rightarrow> True | Inr (stg, m') \<Rightarrow> stg \<noteq> dcdStageStall)"

subsection \<open>Control-plane calls of a request\<close>

text \<open>
  \<open>transmit_calls\<close> is the pair of calls that ends a descriptor responder for
  the length \<open>dxn\<close>, \<open>dxnCDCACM\<close> and \<open>dxnHID\<close> are the length \<open>dxn\<close> the
  responder's \<open>switch\<close> assembles on the table entry of the bound
  configuration (\<open>None\<close> when it panics).
\<close>

definition transmit_calls :: "addr \<Rightarrow> 8 word \<Rightarrow> dcdSetup \<Rightarrow> hal_call list" where
  "transmit_calls a dxn r =
     (if dxn > 0 then
        (let n = (if dxn > ucast (wLength r) then ucast (wLength r) else dxn)
         in [FlushCache a (unat n), ControlTransmit a (ucast n) False])
      else [])"

definition dxnCDCACM :: "platform \<Rightarrow> dcdSetup \<Rightarrow> machine \<Rightarrow> 8 word option" where
  "dxnCDCACM p r m =
     (case go_index (descCDCACM m) (class_config (dcd_cc (m_dcd m)) - 1) of
        Inl e \<Rightarrow> None
      | Inr acm \<Rightarrow>
         (case descriptorCDCACM p r acm of
            Inl e \<Rightarrow> None
          | Inr (acm', dxn) \<Rightarrow> Some dxn))"

definition dxnHID :: "platform \<Rightarrow> dcdSetup \<Rightarrow> machine \<Rightarrow> 8 word option" where
  "dxnHID p r m =
     (case go_index (descHID m) (class_config (dcd_cc (m_dcd m)) - 1) of
        Inl e \<Rightarrow> None
      | Inr hid \<Rightarrow>
         (case descriptorHID p r hid of
            Inl e \<Rightarrow> None
          | Inr (hid', dxn) \<Rightarrow> Some dxn))"

text \<open>
  The calls \<open>controlTransmit\<close> and \<open>controlReceive\<close> among those a run of
  \<open>controlSetup\<close> adds to the record, and the number of them that the code
  makes on a return other than \<open>Stall\<close>: one, but none for a request
  delegated to a descriptor responder whose assembled length is 0 and none
  for SET_CONFIGURATION under a class that is neither CDC-ACM nor HID.
\<close>

fun is_control_call :: "hal_call \<Rightarrow> bool" where
  "is_control_call (ControlTransmit a n z) = True"
| "is_control_call (ControlReceive a n z) = True"
| "is_control_call c = False"

definition control_calls :: "hal_call list \<Rightarrow> nat" where
  "control_calls cs = length (filter is_control_call cs)"

definition new_calls :: "machine \<Rightarrow> machine \<Rightarrow> hal_call list" where
  "new_calls m m' = drop (length (dhw_calls (m_dhw m))) (dhw_calls (m_dhw m'))"

definition descriptor_request :: "platform \<Rightarrow> usb_class \<Rightarrow> dcdSetup \<Rightarrow> bool" where
  "descriptor_request p cls r \<longleftrightarrow>
     bmRequestType r AND descRequestTypeTypeMsk = descRequestTypeTypeStandard \<and>
     (bmRequestType r AND (descRequestTypeRecipientMsk OR descRequestTypeDirMsk) =
        (descRequestTypeRecipientDevice OR descRequestTypeDirIn) \<and>
      bRequest r = descRequestStandardGetDescriptor \<and>
      (class_id cls = classDeviceCDCACM p \<or> class_id cls = classDeviceHID p) \<or>
      bmRequestType r AND (descRequestTypeRecipientMsk OR descRequestTypeDirMsk) =
        (descRequestTypeRecipientInterface OR descRequestTypeDirIn) \<and>
      (bRequest r = descRequestStandardGetDescriptor \<and>
       (class_id cls = classDeviceCDCACM p \<or> class_id cls = classDeviceHID p) \<or>
       bRequest r = descHIDRequestGetReport \<and> class_id cls = classDeviceHID p))"

definition set_configuration_request :: "dcdSetup \<Rightarrow> bool" where
  "set_configuration_request r \<longleftrightarrow>
     bmRequestType r AND descRequestTypeTypeMsk = descRequestTypeTypeStandard \<and>
     bmRequestType r AND (descRequestTypeRecipientMsk OR descRequestTypeDirMsk) =
       (descRequestTypeRecipientDevice OR descRequestTypeDirOut) \<and>
     bRequest r = descRequestStandardSetConfiguration"

definition assembled_dxn :: "platform \<Rightarrow> dcdSetup \<Rightarrow> machine \<Rightarrow> 8 word option" where
  "assembled_dxn p r m =
     (if class_id (dcd_cc (m_dcd m)) = classDeviceCDCACM p then dxnCDCACM p r m
      else if class_id (dcd_cc (m_dcd m)) = classDeviceHID p then dxnHID p r m
      else None)"

definition expected_control_calls :: "platform \<Rightarrow> dcdSetup \<Rightarrow> machine \<Rightarrow> nat" where
  "expected_control_calls p r m =
     (if descriptor_request p (dcd_cc (m_dcd m)) r \<and> assembled_dxn p r m = Some 0 then 0
      else if set_configuration_request r \<and>
              class_id (dcd_cc (m_dcd m)) \<noteq> classDeviceCDCACM p \<and>
              class_id (dcd_cc (m_dcd m)) \<noteq> classDeviceHID p then 0
      else 1)"

text \<open>The property of a result of \<open>controlSetup\<close> that the proof carries through its branches.\<close>

definition control_calls_ok ::
  "platform \<Rightarrow> dcdSetup \<Rightarrow> machine \<Rightarrow> panic + dcdStage \<times> machine \<Rightarrow> bool" where
  "control_calls_ok p r m x =
     (case x of
        Inl e \<Rightarrow> True
      | Inr (stg, m') \<Rightarrow>
          stg \<noteq> dcdStageStall \<longrightarrow>
          dhw_calls (m_dhw m') = dhw_calls (m_dhw m) @ new_calls m m' \<and>
          control_calls (new_calls m m') = expected_control_calls p r m)"

subsection \<open>Sequences of events and the active control transfer\<close>

text \<open>
  \<open>run\<close> hands the events of a list to \<open>event\<close> one after the other, as the
  hardware layer does, and stops at a panic.
\<close>

fun run :: "platform \<Rightarrow> dcdEvent list \<Rightarrow> machine \<Rightarrow> panic + machine" where
  "run p [] m = Inr m"
| "run p (e # es) m = (case event p e m of Inl x \<Rightarrow> Inl x | Inr m' \<Rightarrow> run p es m')"

text \<open>
  Written from the words of the spec (section 3): a control transfer is
  active between the receipt of \<open>ControlSetup\<close> and the end of
  \<open>ControlComplete\<close>. \<open>inflight a evs\<close> is the SETUP packet of the transfer
  that is active after the events \<open>evs\<close>, starting from \<open>a\<close>, and \<open>None\<close> when
  none is; \<open>stored\<close> is the packet the controller then holds, the zero packet
  between transfers.
\<close>

fun inflight :: "dcdSetup option \<Rightarrow> dcdEvent list \<Rightarrow> dcdSetup option" where
  "inflight a [] = a"
| "inflight a (e # es) =
     inflight (if ev_id e = dcdEventControlSetup then Some (ev_setup e)
               else if ev_id e = dcdEventControlComplete then None
               else a) es"

definition stored :: "dcdSetup option \<Rightarrow> dcdSetup" where
  "stored a = (case a of None \<Rightarrow> dcdSetup_zero | Some P \<Rightarrow> P)"

text \<open>
  The table entry that the class binding selects exists, with a control
  scratch of at least four bytes under HID: what \<open>controlComplete\<close> reads.
\<close>

definition tables_ok :: "platform \<Rightarrow> machine \<Rightarrow> bool" where
  "tables_ok p m \<longleftrightarrow>
     (let cc = dcd_cc (m_dcd m); i = class_config cc - 1 in
      (class_id cc = classDeviceCDCACM p \<longrightarrow> 0 \<le> i \<and> i < int (length (descCDCACM m))) \<and>
      (class_id cc = classDeviceHID p \<longrightarrow>
         0 \<le> i \<and> i < int (length (descHID m)) \<and>
         4 \<le> length (hid_cx (descHID m ! nat i))))"

text \<open>The property of a result of \<open>controlSetup\<close> that the stored packet is as before.\<close>

definition keeps_setup :: "machine \<Rightarrow> panic + dcdStage \<times> machine \<Rightarrow> bool" where
  "keeps_setup m x =
     (case x of
        Inl e \<Rightarrow> True
      | Inr (stg, m') \<Rightarrow> dhw_setup (m_dhw m') = dhw_setup (m_dhw m))"

section \<open>Concrete instances\<close>

text \<open>
  A platform with one CDC-ACM and one HID configuration, two USB cores and
  the five HID interfaces in the order keyboard, mouse, serial, joystick,
  media keys; a CDC-ACM table entry with two languages; a HID table entry;
  a controller bound to each class.
\<close>

definition example_platform :: platform where
  "example_platform =
     \<lparr> descCDCACMCount = 1, descHIDCount = 1, coreCount = 2,
       classDeviceCDCACM = 1, classDeviceHID = 2,
       descCDCACMInterfaceCtrl = 0,
       descCDCACMConfigSize = 9, descHIDConfigSize = 9,
       descHIDSxSize = 64, descHIDInterfaceCount = 5,
       descHIDInterfaceKeyboard = 0, descHIDInterfaceMouse = 1,
       descHIDInterfaceSerial = 2, descHIDInterfaceJoystick = 3,
       descHIDInterfaceMediaKey = 4,
       descHIDConfigKeyboardPos = 18, descHIDConfigMousePos = 43,
       descHIDConfigSerialPos = 68, descHIDConfigJoystickPos = 100,
       descHIDConfigMediaKeyPos = 125,
       descHIDReportKeyboard = [0x05, 0x01, 0x09, 0x06],
       descHIDReportMouse = [0x05, 0x01, 0x09, 0x02],
       descHIDReportSerial = [0x06, 0xC9, 0xFF],
       descHIDReportJoystick = [0x05, 0x01, 0x09, 0x04],
       descHIDReportMediaKey = [0x05, 0x0C, 0x09, 0x01],
       descLengthInterface = 9,
       descCommonManufacturer = ''TinyGo'',
       descCommonProduct = ''USB'',
       descCommonSerialNumber = ''00000'' \<rparr>"

definition example_device :: "8 word list" where
  "example_device =
     [18, 1, 0, 2, 2, 0, 0, 64, 0xC0, 0x16, 0x83, 0x04, 0x75, 0x02, 1, 2, 3, 1]"

definition example_qualif :: "8 word list" where
  "example_qualif = [10, 6, 0, 2, 2, 0, 0, 64, 1, 0]"

definition example_config :: "8 word list" where
  "example_config = [9, 2, 9, 0, 1, 1, 0, 0xC0, 50]"

definition example_locale :: "descStringLanguage list" where
  "example_locale =
     [\<lparr> language = 0x0409,
         descriptor = [[4, 3, 0x09, 0x04], [0, 0, 0, 0, 0, 0, 0, 0]] \<rparr>,
      \<lparr> language = 0x0407,
         descriptor = [[4, 3, 0x07, 0x04], [0, 0, 0, 0, 0, 0, 0, 0]] \<rparr>]"

definition example_acm :: descCDCACMClass where
  "example_acm =
     \<lparr> acm_locale = example_locale, acm_device = example_device,
       acm_qualif = example_qualif, acm_config = example_config,
       acm_dx = [0, 0, 0, 0, 0, 0, 0, 0, 0, 0, 0, 0, 0, 0, 0, 0, 0, 0, 0, 0],
       acm_cx = [0, 0, 0, 0, 0, 0, 0] \<rparr>"

definition example_hid :: descHIDClass where
  "example_hid =
     \<lparr> hid_locale = example_locale, hid_device = example_device,
       hid_qualif = example_qualif, hid_config = example_config,
       hid_dx = [0, 0, 0, 0, 0, 0, 0, 0, 0, 0, 0, 0, 0, 0, 0, 0, 0, 0, 0, 0],
       hid_cx = [0xA9, 0x45, 0xC2, 0x68, 0, 0, 0, 0],
       hid_keyboard_led = 0 \<rparr>"

definition example_vendor_in :: dcdSetup where
  "example_vendor_in =
     \<lparr> bmRequestType = 0xC0, bRequest = 0xFF, wValue = 0, wIndex = 0, wLength = 0 \<rparr>"

definition example_set_configuration :: dcdSetup where
  "example_set_configuration =
     \<lparr> bmRequestType = 0x00, bRequest = 0x09, wValue = 1, wIndex = 0, wLength = 0 \<rparr>"

definition example_get_other_speed :: dcdSetup where
  "example_get_other_speed =
     \<lparr> bmRequestType = 0x80, bRequest = 0x06, wValue = 0x0700, wIndex = 0, wLength = 0xFF \<rparr>"

definition example_get_status :: dcdSetup where
  "example_get_status =
     \<lparr> bmRequestType = 0x80, bRequest = 0x00, wValue = 0, wIndex = 0, wLength = 2 \<rparr>"

definition example_get_device_256 :: dcdSetup where
  "example_get_device_256 =
     \<lparr> bmRequestType = 0x80, bRequest = 0x06, wValue = 0x0100, wIndex = 0,
       wLength = 0x0100 \<rparr>"

definition example_get_language :: "16 word \<Rightarrow> dcdSetup" where
  "example_get_language i =
     \<lparr> bmRequestType = 0x80, bRequest = 0x06, wValue = 0x0300, wIndex = i, wLength = 0xFF \<rparr>"

definition example_set_report :: dcdSetup where
  "example_set_report =
     \<lparr> bmRequestType = 0x21, bRequest = 0x09, wValue = 0x0300, wIndex = 2, wLength = 4 \<rparr>"

definition example_dcd :: "int \<Rightarrow> dcd" where
  "example_dcd cid =
     \<lparr> dcd_dhw = Some (DHW 0 0 0), dcd_core = Some 0, dcd_port = 0,
       dcd_cc = \<lparr> class_id = cid, class_config = 1 \<rparr>,
       dcd_id = 0, dcd_st = dcdStateDefault \<rparr>"

definition example_dhw :: "dcdSetup \<Rightarrow> dhw" where
  "example_dhw req =
     \<lparr> dhw_setup = req, dhw_stage = dcdStageSetup, dhw_calls = [],
       dhw_endpointStatus = (\<lambda>ep. 0) \<rparr>"

definition example_machine :: "int \<Rightarrow> dcdSetup \<Rightarrow> machine" where
  "example_machine cid req =
     \<lparr> m_dcd = example_dcd cid, m_dhw = example_dhw req,
       descCDCACM = [example_acm], descHID = [example_hid] \<rparr>"

section \<open>Verification\<close>

subsection \<open>SETUP codec\<close>

lemma mask_FF: "(0xFF :: 64 word) = mask 8"
  by (simp add: mask_eq_exp_minus_1)

lemma mask_FFFF: "(0xFFFF :: 64 word) = mask 16"
  by (simp add: mask_eq_exp_minus_1)

lemma mask_FF00: "(0xFF00 :: 64 word) = push_bit 8 (mask 8)"
  by (simp add: mask_eq_exp_minus_1 push_bit_eq_mult)

lemma mask_FFFF0000: "(0xFFFF0000 :: 64 word) = push_bit 16 (mask 16)"
  by (simp add: mask_eq_exp_minus_1 push_bit_eq_mult)

lemma mask_FFFF00000000: "(0xFFFF00000000 :: 64 word) = push_bit 32 (mask 16)"
  by (simp add: mask_eq_exp_minus_1 push_bit_eq_mult)

lemma mask_FFFF000000000000: "(0xFFFF000000000000 :: 64 word) = push_bit 48 (mask 16)"
  by (simp add: mask_eq_exp_minus_1 push_bit_eq_mult)

lemmas setup_masks =
  mask_FF mask_FFFF mask_FF00 mask_FFFF0000 mask_FFFF00000000 mask_FFFF000000000000

lemma bit_and_field:
  "bit (u AND push_bit k (mask m) :: 64 word) j \<longleftrightarrow> bit u j \<and> k \<le> j \<and> j < k + m"
  by (auto simp add: bit_and_iff bit_push_bit_iff bit_mask_iff dest: bit_imp_le_length)

lemma bit_field8:
  "bit (ucast (drop_bit k (u AND push_bit k (mask 8)) :: 64 word) :: 8 word) n
     \<longleftrightarrow> n < 8 \<and> bit u (k + n)"
  by (simp only: bit_ucast_iff bit_drop_bit_eq comp_def bit_and_field) auto

lemma bit_field16:
  "bit (ucast (drop_bit k (u AND push_bit k (mask 16)) :: 64 word) :: 16 word) n
     \<longleftrightarrow> n < 16 \<and> bit u (k + n)"
  by (simp only: bit_ucast_iff bit_drop_bit_eq comp_def bit_and_field) auto

lemma bit_packed:
  "bit (push_bit k (ucast (w :: 'a::len word) AND mask m) :: 64 word) j
     \<longleftrightarrow> k \<le> j \<and> j < 64 \<and> j - k < m \<and> bit w (j - k)"
  by (auto simp add: bit_and_iff bit_push_bit_iff bit_mask_iff bit_ucast_iff
      dest: bit_imp_le_length)

lemmas bit_fields = bit_field8 [of 0, simplified] bit_field8 bit_field16 bit_or_iff bit_packed

lemma bit_pack:
  "bit (dcdSetup_pack s) n \<longleftrightarrow>
     (if n < 8 then bit (bmRequestType s) n
      else if n < 16 then bit (bRequest s) (n - 8)
      else if n < 32 then bit (wValue s) (n - 16)
      else if n < 48 then bit (wIndex s) (n - 32)
      else bit (wLength s) (n - 48))"
  unfolding dcdSetup_pack_def
  apply (simp only: setup_masks)
  apply (simp only: bit_or_iff bit_packed)
  apply (cases "n < 8"; cases "n < 16"; cases "n < 32"; cases "n < 48"; cases "n < 64")
  apply (auto dest: bit_imp_le_length)
  done

lemma set_pack_bmRequestType: "bmRequestType (dcdSetup_set (dcdSetup_pack s)) = bmRequestType s"
  unfolding dcdSetup_pack_def dcdSetup_set_def
  apply (simp only: setup_masks dcdSetup.simps)
  apply (rule bit_word_eqI)
  apply (simp only: bit_fields)
  apply (auto dest: bit_imp_le_length)
  done

lemma set_pack_bRequest: "bRequest (dcdSetup_set (dcdSetup_pack s)) = bRequest s"
  unfolding dcdSetup_pack_def dcdSetup_set_def
  apply (simp only: setup_masks dcdSetup.simps)
  apply (rule bit_word_eqI)
  apply (simp only: bit_fields)
  apply (auto dest: bit_imp_le_length)
  done

lemma set_pack_wValue: "wValue (dcdSetup_set (dcdSetup_pack s)) = wValue s"
  unfolding dcdSetup_pack_def dcdSetup_set_def
  apply (simp only: setup_masks dcdSetup.simps)
  apply (rule bit_word_eqI)
  apply (simp only: bit_fields)
  apply (auto dest: bit_imp_le_length)
  done

lemma set_pack_wIndex: "wIndex (dcdSetup_set (dcdSetup_pack s)) = wIndex s"
  unfolding dcdSetup_pack_def dcdSetup_set_def
  apply (simp only: setup_masks dcdSetup.simps)
  apply (rule bit_word_eqI)
  apply (simp only: bit_fields)
  apply (auto dest: bit_imp_le_length)
  done

lemma set_pack_wLength: "wLength (dcdSetup_set (dcdSetup_pack s)) = wLength s"
  unfolding dcdSetup_pack_def dcdSetup_set_def
  apply (simp only: setup_masks dcdSetup.simps)
  apply (rule bit_word_eqI)
  apply (simp only: bit_fields)
  apply (auto dest: bit_imp_le_length)
  done

lemma set_pack: "dcdSetup_set (dcdSetup_pack (s :: dcdSetup)) = s"
  by (rule dcdSetup.equality)
     (simp_all add: set_pack_bmRequestType set_pack_bRequest
        set_pack_wValue set_pack_wIndex set_pack_wLength)

lemma pack_set: "dcdSetup_pack (dcdSetup_set u) = u"
  unfolding dcdSetup_pack_def dcdSetup_set_def
  apply (simp only: setup_masks dcdSetup.simps)
  apply (rule bit_word_eqI)
  apply (simp only: bit_fields)
  apply (simp only: size_word.rep_eq len_bit0 len_num1 One_nat_def mult_Suc_right)
  subgoal for n
    by (cases "n < 8"; cases "n < 16"; cases "n < 32"; cases "n < 48") auto
  done

text \<open>
  C3. For every SETUP packet \<open>P\<close>, \<open>set (pack P)\<close> is \<open>P\<close> field for field, and
  for every 64-bit word \<open>u\<close>, \<open>pack\<close> of the packet \<open>set u\<close> produces is \<open>u\<close>.
  The layout is bit-exact: bit \<open>n\<close> of \<open>pack P\<close> is bit \<open>n\<close> of
  \<open>bmRequestType\<close> for \<open>n\<close> in 0..7, bit \<open>n - 8\<close> of \<open>bRequest\<close> for 8..15, bit
  \<open>n - 16\<close> of \<open>wValue\<close> for 16..31, bit \<open>n - 32\<close> of \<open>wIndex\<close> for 32..47 and
  bit \<open>n - 48\<close> of \<open>wLength\<close> for 48..63.
\<close>

theorem setup_pack_set_roundtrip:
  "dcdSetup_set (dcdSetup_pack (P :: dcdSetup)) = P \<and>
   dcdSetup_pack (dcdSetup_set u) = u \<and>
   bit (dcdSetup_pack P) n =
     (if n < 8 then bit (bmRequestType P) n
      else if n < 16 then bit (bRequest P) (n - 8)
      else if n < 32 then bit (wValue P) (n - 16)
      else if n < 48 then bit (wIndex P) (n - 32)
      else bit (wLength P) (n - 48))"
  using set_pack [of P] pack_set [of u] bit_pack [of P n] by simp

theorem setup_pack_set_roundtrip_witness:
  "dcdSetup_set (dcdSetup_pack
     \<lparr>bmRequestType = 0x80, bRequest = 0x06, wValue = 0x0100, wIndex = 0, wLength = 18\<rparr>)
   = \<lparr>bmRequestType = 0x80, bRequest = 0x06, wValue = 0x0100, wIndex = 0, wLength = 18\<rparr> \<and>
   dcdSetup_pack (dcdSetup_set 0x0012000001000680) = 0x0012000001000680 \<and>
   bit (dcdSetup_pack
     \<lparr>bmRequestType = 0x80, bRequest = 0x06, wValue = 0x0100, wIndex = 0, wLength = 18\<rparr>) 7"
  using setup_pack_set_roundtrip
    [of "\<lparr>bmRequestType = 0x80, bRequest = 0x06, wValue = 0x0100, wIndex = 0, wLength = 18\<rparr>"
        "0x0012000001000680" 7]
  by simp

subsection \<open>State machine\<close>

lemmas dcdState_defs =
  dcdStateNotReady_def dcdStateDefault_def dcdStateAddressed_def
  dcdStateConfigured_def dcdStateSuspended_def

lemma spec_accepts_NotReady: "spec_accepts s dcdStateNotReady"
  by (simp add: spec_accepts_def)

lemma setState_ok: "fst (setState t d) = spec_accepts (state d) t"
  by (auto simp: setState_def spec_accepts_def Let_def dcdState_defs)

lemma setState_state:
  "state (snd (setState t d)) = (if spec_accepts (state d) t then t else state d)"
  by (auto simp: setState_def spec_accepts_def Let_def dcdState_defs state_def)

lemma setState_eq:
  "setState t d = (spec_accepts (state d) t,
                   if spec_accepts (state d) t then d\<lparr>dcd_st := t\<rparr> else d)"
  by (auto simp: setState_def spec_accepts_def Let_def dcdState_defs)

text \<open>
  C1. For every current state \<open>s\<close> and requested state \<open>t\<close>, \<open>setState t\<close>
  returns true and writes \<open>t\<close> exactly when the transition table accepts
  the step from \<open>s\<close> to \<open>t\<close>; when the table rejects it, \<open>setState\<close> returns
  false and \<open>state\<close> still returns \<open>s\<close>; \<open>setState dcdStateNotReady\<close> always
  succeeds.
\<close>

theorem setState_transition_table:
  "fst (setState t d) = spec_accepts (state d) t \<and>
   snd (setState t d) = (if spec_accepts (state d) t then d\<lparr>dcd_st := t\<rparr> else d) \<and>
   state (snd (setState t d)) = (if spec_accepts (state d) t then t else state d) \<and>
   fst (setState dcdStateNotReady d) \<and>
   state (snd (setState dcdStateNotReady d)) = dcdStateNotReady"
  using setState_eq [of t d] setState_eq [of dcdStateNotReady d]
    spec_accepts_NotReady [of "state d"]
  by (simp add: state_def)

theorem setState_transition_table_witness:
  "fst (setState dcdStateAddressed (example_dcd 1)) \<and>
   state (snd (setState dcdStateAddressed (example_dcd 1)))
     = dcdStateAddressed \<and>
   \<not> fst (setState dcdStateConfigured (example_dcd 1)) \<and>
   state (snd (setState dcdStateConfigured (example_dcd 1)))
     = dcdStateDefault"
  using setState_transition_table [of dcdStateAddressed "example_dcd 1"]
    setState_transition_table [of dcdStateConfigured "example_dcd 1"]
  by (simp add: spec_accepts_def state_def dcdState_defs example_dcd_def)

subsection \<open>Instance pool\<close>

lemma setState_NotReady: "snd (setState dcdStateNotReady d) = d\<lparr>dcd_st := dcdStateNotReady\<rparr>"
  by (simp add: setState_eq spec_accepts_NotReady)

lemma dcd_all_fields:
  "(d :: dcd)\<lparr>dcd_dhw := a, dcd_core := b, dcd_port := c, dcd_cc := e, dcd_id := f,
      dcd_st := g\<rparr> =
   \<lparr>dcd_dhw = a, dcd_core = b, dcd_port = c, dcd_cc = e, dcd_id = f, dcd_st = g\<rparr>"
  by (cases d) simp

lemma scan_busy:
  "(\<And>j. i \<le> j \<Longrightarrow> j < length pool \<Longrightarrow> dcd_core (pool ! j) \<noteq> None) \<Longrightarrow>
   initDCD_scan p port speed cls pool i = Inr (pool, None, statusBusy)"
proof (induction p port speed cls pool i rule: initDCD_scan.induct)
  case (1 p port speed cls pool i)
  show ?case
  proof (cases "i < length pool")
    case True
    then have c: "dcd_core (pool ! i) \<noteq> None" using "1.prems" by simp
    have "initDCD_scan p port speed cls pool (Suc i) = Inr (pool, None, statusBusy)"
      using True c "1.prems" by (intro "1.IH") auto
    then show ?thesis using True c by (simp add: initDCD_scan.simps [of p port speed cls pool i])
  next
    case False
    then show ?thesis by (simp add: initDCD_scan.simps [of p port speed cls pool i])
  qed
qed

lemma scan_first:
  "i \<le> k \<Longrightarrow> k < length pool \<Longrightarrow> dcd_core (pool ! k) = None \<Longrightarrow>
   (\<And>j. i \<le> j \<Longrightarrow> j < k \<Longrightarrow> dcd_core (pool ! j) \<noteq> None) \<Longrightarrow>
   initDCD_scan p port speed cls pool i =
     (if 0 \<le> port \<and> port < coreCount p
      then Inr (pool[k := initialised port speed cls k], Some k, statusOK)
      else Inl IndexOutOfRange)"
proof (induction p port speed cls pool i rule: initDCD_scan.induct)
  case (1 p port speed cls pool i)
  show ?case
  proof (cases "i = k")
    case True
    then show ?thesis using "1.prems"
      by (simp add: initDCD_scan.simps [of p port speed cls pool k] setState_NotReady initialised_def dcd_all_fields)
  next
    case False
    then have lt: "i < k" using "1.prems" by simp
    then have c: "dcd_core (pool ! i) \<noteq> None" using "1.prems" by simp
    have il: "i < length pool" using lt "1.prems" by simp
    have "initDCD_scan p port speed cls pool (Suc i) =
      (if 0 \<le> port \<and> port < coreCount p
       then Inr (pool[k := initialised port speed cls k], Some k, statusOK)
       else Inl IndexOutOfRange)"
      using il c lt "1.prems" by (intro "1.IH") auto
    then show ?thesis using il c by (auto simp add: initDCD_scan.simps [of p port speed cls pool i])
  qed
qed

lemma initDCD_port_outside:
  assumes "\<not> spec_invalid p cls" and "k < length pool" and "dcd_core (pool ! k) = None"
      and "\<And>j. j < k \<Longrightarrow> dcd_core (pool ! j) \<noteq> None"
      and "\<not> (0 \<le> port \<and> port < coreCount p)"
  shows "initDCD p port speed cls pool = Inl IndexOutOfRange"
proof -
  have "initDCD p port speed cls pool = initDCD_scan p port speed cls pool 0"
    using assms(1) by (auto simp: initDCD_def spec_invalid_def)
  also have "\<dots> = Inl IndexOutOfRange"
    using assms by (subst scan_first [of 0 k]) auto
  finally show ?thesis .
qed

text \<open>
  C7. \<open>initDCD\<close> returns \<open>statusInvalid\<close> when \<open>dcdCount\<close> is 0, or when the
  class is CDC-ACM with \<open>config\<close> 0 or above \<open>descCDCACMCount\<close>. Of the calls
  that pass these checks, every one made once all slots have a core returns
  \<open>statusBusy\<close> and leaves the pool as it was; any other initialises the
  first slot \<open>k\<close> whose core is nil (HAL allocated, core, port, class and id
  assigned, state NotReady) and returns it with \<open>statusOK\<close>, for a port that
  indexes \<open>coreInstance\<close>.
\<close>

theorem initDCD_status:
  "(spec_invalid p cls \<longrightarrow>
      initDCD p port speed cls pool = Inr (pool, None, statusInvalid)) \<and>
   (\<not> spec_invalid p cls \<and> (\<forall>d \<in> set pool. dcd_core d \<noteq> None) \<longrightarrow>
      initDCD p port speed cls pool = Inr (pool, None, statusBusy)) \<and>
   (\<not> spec_invalid p cls \<and> k < length pool \<and> dcd_core (pool ! k) = None \<and>
    (\<forall>j < k. dcd_core (pool ! j) \<noteq> None) \<and> 0 \<le> port \<and> port < coreCount p \<longrightarrow>
      initDCD p port speed cls pool =
        Inr (pool[k := initialised port speed cls k], Some k, statusOK))"
proof (intro conjI impI)
  assume "spec_invalid p cls"
  then show "initDCD p port speed cls pool = Inr (pool, None, statusInvalid)"
    by (auto simp: initDCD_def spec_invalid_def)
next
  assume a: "\<not> spec_invalid p cls \<and> (\<forall>d \<in> set pool. dcd_core d \<noteq> None)"
  then have "initDCD p port speed cls pool = initDCD_scan p port speed cls pool 0"
    by (auto simp: initDCD_def spec_invalid_def)
  also have "\<dots> = Inr (pool, None, statusBusy)"
    using a by (intro scan_busy) auto
  finally show "initDCD p port speed cls pool = Inr (pool, None, statusBusy)" .
next
  assume a: "\<not> spec_invalid p cls \<and> k < length pool \<and> dcd_core (pool ! k) = None \<and>
    (\<forall>j < k. dcd_core (pool ! j) \<noteq> None) \<and> 0 \<le> port \<and> port < coreCount p"
  then have "initDCD p port speed cls pool = initDCD_scan p port speed cls pool 0"
    by (auto simp: initDCD_def spec_invalid_def)
  also have "\<dots> = Inr (pool[k := initialised port speed cls k], Some k, statusOK)"
    using a by (subst scan_first [of 0 k]) auto
  finally show "initDCD p port speed cls pool =
      Inr (pool[k := initialised port speed cls k], Some k, statusOK)" .
qed

theorem initDCD_status_witness:
  "initDCD example_platform 0 0 \<lparr>class_id = 1, class_config = 0\<rparr> [example_dcd 1]
     = Inr ([example_dcd 1], None, statusInvalid) \<and>
   initDCD example_platform 0 0 \<lparr>class_id = 2, class_config = 1\<rparr>
       [example_dcd 1, example_dcd 2]
     = Inr ([example_dcd 1, example_dcd 2], None, statusBusy) \<and>
   initDCD example_platform 1 0 \<lparr>class_id = 2, class_config = 1\<rparr>
       [example_dcd 1, (example_dcd 2)\<lparr>dcd_core := None\<rparr>]
     = Inr ([example_dcd 1,
             initialised 1 0 \<lparr>class_id = 2, class_config = 1\<rparr> 1], Some 1, statusOK)"
  using initDCD_status [of example_platform "\<lparr>class_id = 1, class_config = 0\<rparr>" 0 0
      "[example_dcd 1]" 0]
    initDCD_status [of example_platform "\<lparr>class_id = 2, class_config = 1\<rparr>" 0 0
      "[example_dcd 1, example_dcd 2]" 0]
    initDCD_status [of example_platform "\<lparr>class_id = 2, class_config = 1\<rparr>" 1 0
      "[example_dcd 1, (example_dcd 2)\<lparr>dcd_core := None\<rparr>]" 1]
  by (simp add: spec_invalid_def example_platform_def example_dcd_def dcdCount_def less_Suc_eq)

subsection \<open>Request decoding\<close>

lemma and80: "(b :: 8 word) AND 0x80 = (if bit b 7 then 0x80 else 0)"
proof -
  have "(b :: 8 word) AND 2 ^ 7 = (if bit b 7 then 2 ^ 7 else 0)"
  proof (cases "bit b 7")
    case True
    have "b AND 2 ^ 7 = 2 ^ 7"
      by (rule bit_word_eqI) (simp only: bit_and_iff bit_exp_iff, use True in auto)
    then show ?thesis using True by (simp only: if_True)
  next
    case False
    have "b AND 2 ^ 7 = 0"
      by (rule bit_word_eqI) (simp only: bit_and_iff bit_exp_iff, use False in auto)
    then show ?thesis using False by (simp only: if_False)
  qed
  then show ?thesis by simp
qed

lemma split9F: "(b :: 8 word) AND 0x9F = (b AND 0x1F) OR (b AND 0x80)"
proof -
  have "(0x9F :: 8 word) = 0x1F OR 0x80" by simp
  then show ?thesis by (simp only: bit.conj_disj_distrib)
qed

lemma rec1F: "((b :: 8 word) AND 0x9F) AND 0x1F = b AND 0x1F"
  by (simp add: and.assoc)

lemma rec80: "((b :: 8 word) AND 0x9F) AND 0x80 = b AND 0x80"
  by (simp add: and.assoc)

lemma rd_split:
  "(b :: 8 word) AND 0x9F = c \<longleftrightarrow>
     b AND 0x1F = c AND 0x1F \<and> b AND 0x80 = c AND 0x80 \<and> c AND 0x9F = c"
proof
  assume h: "b AND 0x9F = c"
  have 1: "b AND 0x1F = c AND 0x1F" using rec1F [of b] by (simp only: h)
  have 2: "b AND 0x80 = c AND 0x80" using rec80 [of b] by (simp only: h)
  have 3: "c AND 0x9F = c" unfolding h [symmetric] by (simp add: and.assoc)
  show "b AND 0x1F = c AND 0x1F \<and> b AND 0x80 = c AND 0x80 \<and> c AND 0x9F = c"
    using 1 2 3 by simp
next
  assume h: "b AND 0x1F = c AND 0x1F \<and> b AND 0x80 = c AND 0x80 \<and> c AND 0x9F = c"
  have "b AND 0x9F = (c AND 0x1F) OR (c AND 0x80)"
    using h by (simp only: split9F)
  also have "\<dots> = c AND 0x9F" by (simp only: split9F)
  finally show "b AND 0x9F = c" using h by simp
qed

lemma rd_00: "(b :: 8 word) AND 0x9F = 0 \<longleftrightarrow> b AND 0x1F = 0 \<and> \<not> bit b 7"
  by (simp add: rd_split [of b 0] and80)
lemma rd_80: "(b :: 8 word) AND 0x9F = 0x80 \<longleftrightarrow> b AND 0x1F = 0 \<and> bit b 7"
  by (simp add: rd_split [of b "0x80"] and80)
lemma rd_01: "(b :: 8 word) AND 0x9F = 1 \<longleftrightarrow> b AND 0x1F = 1 \<and> \<not> bit b 7"
  by (simp add: rd_split [of b 1] and80)
lemma rd_81: "(b :: 8 word) AND 0x9F = 0x81 \<longleftrightarrow> b AND 0x1F = 1 \<and> bit b 7"
  by (simp add: rd_split [of b "0x81"] and80)
lemma rd_02: "(b :: 8 word) AND 0x9F = 2 \<longleftrightarrow> b AND 0x1F = 2 \<and> \<not> bit b 7"
  by (simp add: rd_split [of b 2] and80)
lemma rd_82: "(b :: 8 word) AND 0x9F = 0x82 \<longleftrightarrow> b AND 0x1F = 2 \<and> bit b 7"
  by (simp add: rd_split [of b "0x82"] and80)

lemmas rd_simps = rd_00 rd_80 rd_01 rd_81 rd_02 rd_82

lemmas request_defs =
  descRequestTypeDirMsk_def descRequestTypeDirPos_def descRequestTypeDirOut_def
  descRequestTypeDirIn_def descRequestTypeTypeMsk_def descRequestTypeTypeStandard_def
  descRequestTypeTypeClass_def descRequestTypeTypeVendor_def descRequestTypeRecipientMsk_def
  descRequestTypeRecipientDevice_def descRequestTypeRecipientInterface_def
  descRequestTypeRecipientEndpoint_def
  descRequestStandardGetStatus_def descRequestStandardClearFeature_def
  descRequestStandardSetFeature_def descRequestStandardSetAddress_def
  descRequestStandardGetDescriptor_def descRequestStandardGetConfiguration_def
  descRequestStandardSetConfiguration_def descCDCRequestSetLineCoding_def
  descCDCRequestSetControlLineState_def descCDCRequestSendBreak_def
  descHIDRequestGetReport_def descHIDRequestSetReport_def descHIDRequestSetIdle_def
  descCDCACMLineCodingSize_def

lemma direction_bit: "dcdSetup_direction r = (if bit (bmRequestType r) 7 then 1 else 0)"
  by (simp add: dcdSetup_direction_def request_defs and80)

lemma unmatched_stall:
  assumes "\<not> spec_matched p (dcd_cc (m_dcd m)) r"
  shows "controlSetup p r m = Inr (dcdStageStall, m)"
  using assms
  apply (subst controlSetup.simps)
  apply (simp only: Let_def)
  apply (intro conjI impI | split if_split
         | (simp add: spec_matched_def Let_def request_defs rd_simps; fail))+
  done

lemma vendor_unmatched:
  "bmRequestType r AND descRequestTypeTypeMsk = descRequestTypeTypeVendor \<Longrightarrow>
   \<not> spec_matched p cls r"
  by (simp add: spec_matched_def Let_def request_defs)

lemma hal_simps [simp]:
  "m_dcd (hal c m) = m_dcd m"
  "descCDCACM (hal c m) = descCDCACM m"
  "descHID (hal c m) = descHID m"
  "dhw_setup (m_dhw (hal c m)) = dhw_setup (m_dhw m)"
  "dhw_stage (m_dhw (hal c m)) = dhw_stage (m_dhw m)"
  "dhw_endpointStatus (m_dhw (hal c m)) = dhw_endpointStatus (m_dhw m)"
  "dhw_calls (m_dhw (hal c m)) = dhw_calls (m_dhw m) @ [c]"
  by (simp_all add: hal_def)

lemma set_setup_simps [simp]:
  "m_dcd (set_setup s m) = m_dcd m"
  "descCDCACM (set_setup s m) = descCDCACM m"
  "descHID (set_setup s m) = descHID m"
  "dhw_setup (m_dhw (set_setup s m)) = s"
  "dhw_stage (m_dhw (set_setup s m)) = dhw_stage (m_dhw m)"
  "dhw_endpointStatus (m_dhw (set_setup s m)) = dhw_endpointStatus (m_dhw m)"
  "dhw_calls (m_dhw (set_setup s m)) = dhw_calls (m_dhw m)"
  by (simp_all add: set_setup_def)

lemma set_stage_simps [simp]:
  "m_dcd (set_stage s m) = m_dcd m"
  "descCDCACM (set_stage s m) = descCDCACM m"
  "descHID (set_stage s m) = descHID m"
  "dhw_setup (m_dhw (set_stage s m)) = dhw_setup (m_dhw m)"
  "dhw_stage (m_dhw (set_stage s m)) = s"
  "dhw_endpointStatus (m_dhw (set_stage s m)) = dhw_endpointStatus (m_dhw m)"
  "dhw_calls (m_dhw (set_stage s m)) = dhw_calls (m_dhw m)"
  by (simp_all add: set_stage_def)

lemma set_config_simps [simp]:
  "m_dhw (set_config c m) = m_dhw m"
  "descCDCACM (set_config c m) = descCDCACM m"
  "descHID (set_config c m) = descHID m"
  "class_config (dcd_cc (m_dcd (set_config c m))) = c"
  "class_id (dcd_cc (m_dcd (set_config c m))) = class_id (dcd_cc (m_dcd m))"
  "dcd_st (m_dcd (set_config c m)) = dcd_st (m_dcd m)"
  by (simp_all add: set_config_def)

lemma doSetState_simps [simp]:
  "m_dhw (snd (doSetState t m)) = m_dhw m"
  "descCDCACM (snd (doSetState t m)) = descCDCACM m"
  "descHID (snd (doSetState t m)) = descHID m"
  "dcd_cc (m_dcd (snd (doSetState t m))) = dcd_cc (m_dcd m)"
  "m_dcd (snd (doSetState t m)) = snd (setState t (m_dcd m))"
  "fst (doSetState t m) = fst (setState t (m_dcd m))"
  by (simp_all add: doSetState_def setState_eq split: prod.splits)

lemmas event_ids =
  dcdEventInvalid_def dcdEventStatusReset_def dcdEventStatusResume_def
  dcdEventStatusSuspend_def dcdEventStatusError_def dcdEventDeviceReady_def
  dcdEventDeviceAddress_def dcdEventDeviceConfiguration_def dcdEventControlSetup_def
  dcdEventControlComplete_def dcdEventTransferComplete_def dcdEventTimer_def

lemma event_DeviceConfiguration:
  "event p \<lparr>ev_id = dcdEventDeviceConfiguration, ev_setup = s, ev_mask = k\<rparr> m =
     Inr (snd (doSetState dcdStateConfigured m))"
  by (simp add: event.simps event_ids)

lemma event_ControlSetup:
  "event p \<lparr>ev_id = dcdEventControlSetup, ev_setup = r, ev_mask = k\<rparr> m =
     (case controlSetup p r (set_setup r m) of
        Inl e \<Rightarrow> Inl e
      | Inr (stg, m') \<Rightarrow>
          if stg = dcdStageStall then
            Inr (hal (ControlStall True (dcdSetup_direction r)) (set_stage stg m'))
          else Inr (set_stage stg m'))"
  by (simp add: event.simps event_ids split: sum.split prod.split)

lemma event_ControlComplete:
  "event p \<lparr>ev_id = dcdEventControlComplete, ev_setup = r, ev_mask = k\<rparr> m =
     (case controlComplete p m of
        Inl e \<Rightarrow> Inl e
      | Inr m' \<Rightarrow> Inr (set_setup dcdSetup_zero m'))"
  by (simp add: event.simps event_ids)

text \<open>
  Conversely a request of the tables is not stalled, so the requests outside
  the tables are exactly those \<open>controlSetup\<close> stalls.
\<close>

lemma matched_not_stall:
  assumes "spec_matched p (dcd_cc (m_dcd m)) r"
      and "classDeviceCDCACM p \<noteq> classDeviceHID p"
  shows "not_stall (controlSetup p r m)"
  using assms
  apply (subst controlSetup.simps)
  apply (simp only: Let_def)
  apply (intro conjI impI | split if_split
         | (simp add: not_stall_def spec_matched_def Let_def request_defs rd_simps
              event_DeviceConfiguration split: sum.split; fail)
         | (auto simp add: not_stall_def spec_matched_def Let_def request_defs rd_simps;
            fail))+
  done

text \<open>
  C6. Every SETUP request the dispatch tree does not match - every
  Vendor-type request, and every combination of recipient, direction,
  \<open>bRequest\<close> and bound class outside the tables - makes \<open>controlSetup\<close>
  return \<open>dcdStageStall\<close> with nothing done, and \<open>event\<close> then calls
  \<open>controlStall(true, d)\<close> once and nothing else, \<open>d\<close> being bit 7 of the
  \<open>bmRequestType\<close> received.
\<close>

theorem unmatched_request_stalls:
  "bmRequestType r AND descRequestTypeTypeMsk = descRequestTypeTypeVendor \<or>
   \<not> spec_matched p (dcd_cc (m_dcd m)) r \<Longrightarrow>
   controlSetup p r (set_setup r m) = Inr (dcdStageStall, set_setup r m) \<and>
   event p \<lparr>ev_id = dcdEventControlSetup, ev_setup = r, ev_mask = k\<rparr> m =
     Inr (hal (ControlStall True (dcdSetup_direction r))
           (set_stage dcdStageStall (set_setup r m))) \<and>
   dhw_calls (m_dhw (hal (ControlStall True (dcdSetup_direction r))
                      (set_stage dcdStageStall (set_setup r m)))) =
     dhw_calls (m_dhw m) @ [ControlStall True (if bit (bmRequestType r) 7 then 1 else 0)]"
proof -
  assume "bmRequestType r AND descRequestTypeTypeMsk = descRequestTypeTypeVendor \<or>
   \<not> spec_matched p (dcd_cc (m_dcd m)) r"
  then have "\<not> spec_matched p (dcd_cc (m_dcd (set_setup r m))) r"
    using vendor_unmatched [of r p "dcd_cc (m_dcd m)"] by auto
  then have s: "controlSetup p r (set_setup r m) = Inr (dcdStageStall, set_setup r m)"
    by (rule unmatched_stall)
  show ?thesis
    by (simp add: s event_ControlSetup direction_bit)
qed

theorem unmatched_request_stalls_witness:
  "event example_platform
     \<lparr>ev_id = dcdEventControlSetup, ev_setup = example_vendor_in, ev_mask = 0\<rparr>
     (example_machine 1 dcdSetup_zero) =
   Inr (hal (ControlStall True 1)
         (set_stage dcdStageStall
           (set_setup example_vendor_in (example_machine 1 dcdSetup_zero)))) \<and>
   dhw_calls (m_dhw (hal (ControlStall True (dcdSetup_direction example_vendor_in))
                      (set_stage dcdStageStall
                        (set_setup example_vendor_in (example_machine 1 dcdSetup_zero))))) =
     [ControlStall True 1]"
  using unmatched_request_stalls
    [of example_vendor_in example_platform "example_machine 1 dcdSetup_zero" 0]
  by (simp add: example_vendor_in_def request_defs direction_bit
      example_machine_def example_dhw_def)

subsection \<open>SET_CONFIGURATION before the device is addressed\<close>

lemma setState_Configured_Default:
  "state d = dcdStateDefault \<Longrightarrow> setState dcdStateConfigured d = (False, d)"
  by (simp add: setState_eq spec_accepts_def dcdState_defs)

text \<open>
  C10. When SET_CONFIGURATION (standard, device, OUT) arrives in state
  Default, under a class binding of CDC-ACM or HID, the transition to
  Configured of the \<open>dcdEventDeviceConfiguration\<close> event that
  \<open>controlSetup\<close> emits is rejected and the state stays Default; the
  dispatcher still stores the normalised \<open>config\<close>, still calls the
  configure methods of the bound class, still arms the zero-length status
  receive, and still returns \<open>dcdStageStatusOut\<close>.
\<close>

theorem set_configuration_in_default:
  "state (m_dcd m) = dcdStateDefault \<and>
   bmRequestType r AND descRequestTypeTypeMsk = descRequestTypeTypeStandard \<and>
   bmRequestType r AND (descRequestTypeRecipientMsk OR descRequestTypeDirMsk) =
     (descRequestTypeRecipientDevice OR descRequestTypeDirOut) \<and>
   bRequest r = descRequestStandardSetConfiguration \<and>
   (class_id (dcd_cc (m_dcd m)) = classDeviceCDCACM p \<or>
    class_id (dcd_cc (m_dcd m)) = classDeviceHID p) \<Longrightarrow>
   (let c = (if uint (wValue r) = 0 \<or> uint (wValue r) > dcdCount p then 1
             else uint (wValue r));
        m' = (if class_id (dcd_cc (m_dcd m)) = classDeviceCDCACM p then
                hal (ControlReceive NullPtr 0 False) (hal UartConfigure (set_config c m))
              else
                hal (ControlReceive NullPtr 0 False)
                  (hal JoystickConfigure
                    (hal MouseConfigure
                      (hal KeyboardConfigure (hal SerialConfigure (set_config c m))))))
    in \<not> fst (setState dcdStateConfigured (m_dcd (set_config c m))) \<and>
       event p \<lparr>ev_id = dcdEventDeviceConfiguration, ev_setup = dcdSetup_zero, ev_mask = 0\<rparr>
         (set_config c m) = Inr (set_config c m) \<and>
       controlSetup p r m = Inr (dcdStageStatusOut, m') \<and>
       state (m_dcd m') = dcdStateDefault \<and>
       class_config (dcd_cc (m_dcd m')) = c \<and>
       dhw_calls (m_dhw m') = dhw_calls (m_dhw m) @
         (if class_id (dcd_cc (m_dcd m)) = classDeviceCDCACM p then
            [UartConfigure, ControlReceive NullPtr 0 False]
          else [SerialConfigure, KeyboardConfigure, MouseConfigure, JoystickConfigure,
                ControlReceive NullPtr 0 False]))"
proof -
  assume a: "state (m_dcd m) = dcdStateDefault \<and>
   bmRequestType r AND descRequestTypeTypeMsk = descRequestTypeTypeStandard \<and>
   bmRequestType r AND (descRequestTypeRecipientMsk OR descRequestTypeDirMsk) =
     (descRequestTypeRecipientDevice OR descRequestTypeDirOut) \<and>
   bRequest r = descRequestStandardSetConfiguration \<and>
   (class_id (dcd_cc (m_dcd m)) = classDeviceCDCACM p \<or>
    class_id (dcd_cc (m_dcd m)) = classDeviceHID p)"
  define c where "c = (if uint (wValue r) = 0 \<or> uint (wValue r) > dcdCount p then 1
             else uint (wValue r))"
  have st: "state (m_dcd (set_config c m)) = dcdStateDefault"
    using a by (simp add: state_def)
  have rej: "setState dcdStateConfigured (m_dcd (set_config c m)) = (False, m_dcd (set_config c m))"
    using st by (rule setState_Configured_Default)
  have ev: "event p \<lparr>ev_id = dcdEventDeviceConfiguration, ev_setup = dcdSetup_zero, ev_mask = 0\<rparr>
         (set_config c m) = Inr (set_config c m)"
    by (simp add: event_DeviceConfiguration doSetState_def rej)
  have ne: "descRequestStandardSetConfiguration \<noteq> descRequestStandardSetAddress"
    by (simp add: request_defs)
  have cs: "controlSetup p r m = Inr (dcdStageStatusOut,
      (if class_id (dcd_cc (m_dcd m)) = classDeviceCDCACM p then
                hal (ControlReceive NullPtr 0 False) (hal UartConfigure (set_config c m))
              else
                hal (ControlReceive NullPtr 0 False)
                  (hal JoystickConfigure
                    (hal MouseConfigure
                      (hal KeyboardConfigure (hal SerialConfigure (set_config c m)))))))"
    using a ne
    apply (subst controlSetup.simps)
    apply (simp only: Let_def)
    apply (simp add: ev [unfolded c_def] c_def)
    apply blast
    done
  show ?thesis
    unfolding Let_def c_def [symmetric]
    using a by (simp add: rej ev cs state_def)
qed

theorem set_configuration_in_default_witness:
  "controlSetup example_platform example_set_configuration
     (example_machine 1 dcdSetup_zero) =
   Inr (dcdStageStatusOut,
        hal (ControlReceive NullPtr 0 False)
          (hal UartConfigure (set_config 1 (example_machine 1 dcdSetup_zero)))) \<and>
   state (m_dcd (hal (ControlReceive NullPtr 0 False)
          (hal UartConfigure (set_config 1 (example_machine 1 dcdSetup_zero)))))
     = dcdStateDefault"
  using set_configuration_in_default
    [of "example_machine 1 dcdSetup_zero" example_set_configuration example_platform]
  by (simp add: example_set_configuration_def request_defs example_machine_def
      example_dcd_def example_platform_def state_def dcdCount_def Let_def)

subsection \<open>Control-plane calls of the SETUP phase\<close>

lemma controlDescriptorCDCACM_Inr:
  assumes "controlDescriptorCDCACM p r m = Inr m'"
  shows "dxnCDCACM p r m \<noteq> None \<and>
         m_dcd m' = m_dcd m \<and> descHID m' = descHID m \<and>
         dhw_setup (m_dhw m') = dhw_setup (m_dhw m) \<and>
         dhw_stage (m_dhw m') = dhw_stage (m_dhw m) \<and>
         dhw_calls (m_dhw m') = dhw_calls (m_dhw m) @
           transmit_calls (CDCACM_dx (nat (class_config (dcd_cc (m_dcd m)) - 1)))
             (the (dxnCDCACM p r m)) r"
  using assms
  by (auto simp: controlDescriptorCDCACM_def dxnCDCACM_def transmit_calls_def Let_def
      split: sum.splits prod.splits if_splits)

lemma controlDescriptorHID_Inr:
  assumes "controlDescriptorHID p r m = Inr m'"
  shows "dxnHID p r m \<noteq> None \<and>
         m_dcd m' = m_dcd m \<and> descCDCACM m' = descCDCACM m \<and>
         dhw_setup (m_dhw m') = dhw_setup (m_dhw m) \<and>
         dhw_stage (m_dhw m') = dhw_stage (m_dhw m) \<and>
         dhw_calls (m_dhw m') = dhw_calls (m_dhw m) @
           transmit_calls (HID_dx (nat (class_config (dcd_cc (m_dcd m)) - 1)))
             (the (dxnHID p r m)) r"
  using assms
  by (auto simp: controlDescriptorHID_def dxnHID_def transmit_calls_def Let_def
      split: sum.splits prod.splits if_splits)

lemma control_calls_transmit:
  "control_calls (transmit_calls a dxn r) = (if dxn = 0 then 0 else 1)"
  by (simp add: transmit_calls_def control_calls_def Let_def word_gt_0)

lemma ok_descriptorCDCACM:
  assumes "descriptor_request p (dcd_cc (m_dcd m)) r"
      and "class_id (dcd_cc (m_dcd m)) = classDeviceCDCACM p"
  shows "control_calls_ok p r m
           (case controlDescriptorCDCACM p r m of
              Inl e \<Rightarrow> Inl e | Inr m' \<Rightarrow> Inr (dcdStageDataIn, m'))"
proof (cases "controlDescriptorCDCACM p r m")
  case (Inl e)
  then show ?thesis by (simp add: control_calls_ok_def)
next
  case (Inr m')
  note f = controlDescriptorCDCACM_Inr [OF Inr]
  have sc: "\<not> set_configuration_request r"
    using assms(1)
    by (auto simp add: set_configuration_request_def descriptor_request_def request_defs)
  have a: "assembled_dxn p r m = dxnCDCACM p r m"
    using assms by (simp add: assembled_dxn_def)
  show ?thesis
    using f assms(1) sc
    by (auto simp: Inr control_calls_ok_def new_calls_def expected_control_calls_def a
        control_calls_transmit)
qed

lemma ok_descriptorHID:
  assumes "descriptor_request p (dcd_cc (m_dcd m)) r"
      and "class_id (dcd_cc (m_dcd m)) = classDeviceHID p"
      and "classDeviceCDCACM p \<noteq> classDeviceHID p"
  shows "control_calls_ok p r m
           (case controlDescriptorHID p r m of
              Inl e \<Rightarrow> Inl e | Inr m' \<Rightarrow> Inr (dcdStageDataIn, m'))"
proof (cases "controlDescriptorHID p r m")
  case (Inl e)
  then show ?thesis by (simp add: control_calls_ok_def)
next
  case (Inr m')
  note f = controlDescriptorHID_Inr [OF Inr]
  have sc: "\<not> set_configuration_request r"
    using assms(1)
    by (auto simp add: set_configuration_request_def descriptor_request_def request_defs)
  have a: "assembled_dxn p r m = dxnHID p r m"
    using assms by (auto simp add: assembled_dxn_def)
  show ?thesis
    using f assms(1) sc
    by (auto simp: Inr control_calls_ok_def new_calls_def expected_control_calls_def a
        control_calls_transmit)
qed

lemma ok_plain:
  assumes "\<not> descriptor_request p (dcd_cc (m_dcd m)) r"
      and "\<not> set_configuration_request r"
      and "dhw_calls (m_dhw m') = dhw_calls (m_dhw m) @ cs"
      and "control_calls cs = 1"
  shows "control_calls_ok p r m (Inr (stg, m'))"
  using assms
  by (simp add: control_calls_ok_def new_calls_def expected_control_calls_def)

lemma ok_stall: "control_calls_ok p r m (Inr (dcdStageStall, m'))"
  by (simp add: control_calls_ok_def)

lemma ok_set_configuration:
  assumes "set_configuration_request r"
  shows "control_calls_ok p r m
     (case event p \<lparr>ev_id = dcdEventDeviceConfiguration, ev_setup = dcdSetup_zero,
                    ev_mask = 0\<rparr> (set_config c m) of
        Inl e \<Rightarrow> Inl e
      | Inr m' \<Rightarrow>
          if class_id (dcd_cc (m_dcd m)) = classDeviceCDCACM p then
            Inr (dcdStageStatusOut,
                 hal (ControlReceive NullPtr 0 False) (hal UartConfigure m'))
          else if class_id (dcd_cc (m_dcd m)) = classDeviceHID p then
            Inr (dcdStageStatusOut,
                 hal (ControlReceive NullPtr 0 False)
                   (hal JoystickConfigure
                     (hal MouseConfigure
                       (hal KeyboardConfigure (hal SerialConfigure m')))))
          else Inr (dcdStageStatusOut, m'))"
proof -
  have d: "\<not> descriptor_request p (dcd_cc (m_dcd m)) r"
    using assms
    by (auto simp add: set_configuration_request_def descriptor_request_def request_defs)
  show ?thesis
    using assms d
    by (simp add: event_DeviceConfiguration control_calls_ok_def new_calls_def
        expected_control_calls_def control_calls_def)
qed

lemma controlSetup_control_calls:
  assumes "classDeviceCDCACM p \<noteq> classDeviceHID p"
  shows "control_calls_ok p r m (controlSetup p r m)"
  using assms
  apply (subst controlSetup.simps)
  apply (simp only: Let_def)
  apply (intro conjI impI | split if_split
         | (rule ok_stall)
         | (rule ok_set_configuration; (simp add: set_configuration_request_def; fail))
         | (rule ok_descriptorCDCACM; (simp add: descriptor_request_def; fail))
         | (rule ok_descriptorHID; (simp add: descriptor_request_def; fail))
         | (simp add: control_calls_ok_def new_calls_def expected_control_calls_def
                descriptor_request_def set_configuration_request_def request_defs
                control_calls_def split: sum.split; fail))+
  done

text \<open>
  C2, as amended. After every return of \<open>controlSetup\<close> other than \<open>Stall\<close>
  the calls it has made extend the record and at most one of them is a
  \<open>controlTransmit\<close> or \<open>controlReceive\<close>. Under a class binding of CDC-ACM
  or HID exactly one is, except that none is when the request was delegated
  to a descriptor responder that assembled length 0 (as for the Other-Speed
  Configuration type). The number is \<open>expected_control_calls\<close>, which is 0
  also for SET_CONFIGURATION under any other class id. The two class
  constants differ: they are cases of one \<open>switch\<close>.
\<close>

theorem controlSetup_one_control_call:
  "classDeviceCDCACM p \<noteq> classDeviceHID p \<and>
   controlSetup p r m = Inr (stg, m') \<and> stg \<noteq> dcdStageStall \<Longrightarrow>
   dhw_calls (m_dhw m') = dhw_calls (m_dhw m) @ new_calls m m' \<and>
   control_calls (new_calls m m') = expected_control_calls p r m \<and>
   control_calls (new_calls m m') \<le> 1"
  using controlSetup_control_calls [of p r m]
  by (auto simp add: control_calls_ok_def expected_control_calls_def)

theorem controlSetup_one_control_call_witness:
  "control_calls
     (new_calls (example_machine 1 dcdSetup_zero)
        (hal (ControlTransmit StatusBuffer 2 False)
          (hal (ControlStatusBuffer [0, 0]) (example_machine 1 dcdSetup_zero)))) = 1"
  using controlSetup_one_control_call
    [of example_platform example_get_status "example_machine 1 dcdSetup_zero"
        dcdStageDataIn
        "hal (ControlTransmit StatusBuffer 2 False)
          (hal (ControlStatusBuffer [0, 0]) (example_machine 1 dcdSetup_zero))"]
  by (simp add: controlSetup.simps example_get_status_def request_defs Let_def
      expected_control_calls_def descriptor_request_def set_configuration_request_def
      example_platform_def)

text \<open>
  C2 as stated fails: GET_DESCRIPTOR for the Other-Speed Configuration type
  under CDC-ACM returns \<open>dcdStageDataIn\<close>, and SET_CONFIGURATION under the
  class id 7 returns \<open>dcdStageStatusOut\<close>, each without a \<open>controlTransmit\<close>
  or \<open>controlReceive\<close>.
\<close>

theorem controlSetup_no_control_call:
  "controlSetup example_platform example_get_other_speed (example_machine 1 dcdSetup_zero)
     = Inr (dcdStageDataIn, example_machine 1 dcdSetup_zero) \<and>
   controlSetup example_platform example_set_configuration (example_machine 7 dcdSetup_zero)
     = Inr (dcdStageStatusOut, set_config 1 (example_machine 7 dcdSetup_zero)) \<and>
   control_calls
     (new_calls (example_machine 1 dcdSetup_zero) (example_machine 1 dcdSetup_zero)) = 0 \<and>
   control_calls
     (new_calls (example_machine 7 dcdSetup_zero)
        (set_config 1 (example_machine 7 dcdSetup_zero))) = 0"
proof -
  have 1: "controlDescriptorCDCACM example_platform example_get_other_speed
      (example_machine 1 dcdSetup_zero) = Inr (example_machine 1 dcdSetup_zero)"
    by (simp add: controlDescriptorCDCACM_def descriptorCDCACM_def go_index_def Let_def
        example_get_other_speed_def example_machine_def example_dcd_def
        descTypeDevice_def descTypeConfigure_def descTypeString_def
        descTypeQualification_def descTypeOtherSpeedConfiguration_def)
  have 2: "controlSetup example_platform example_get_other_speed
      (example_machine 1 dcdSetup_zero) = Inr (dcdStageDataIn, example_machine 1 dcdSetup_zero)"
    apply (subst controlSetup.simps)
    apply (simp add: example_get_other_speed_def request_defs Let_def example_machine_def
        example_dcd_def example_platform_def
        1 [unfolded example_get_other_speed_def example_machine_def example_dcd_def
             example_platform_def])
    done
  have 3: "controlSetup example_platform example_set_configuration
      (example_machine 7 dcdSetup_zero)
     = Inr (dcdStageStatusOut, set_config 1 (example_machine 7 dcdSetup_zero))"
    apply (subst controlSetup.simps)
    apply (simp add: event_DeviceConfiguration example_set_configuration_def request_defs Let_def example_machine_def
        example_dcd_def example_platform_def dcdCount_def doSetState_def
        setState_Configured_Default state_def set_config_def)
    done
  show ?thesis
    by (simp add: 2 3 new_calls_def control_calls_def)
qed

subsection \<open>Length of a descriptor response\<close>

lemma transmit_calls_length:
  "transmit_calls a dxn r =
     (if dxn = 0 then []
      else [FlushCache a (min (unat dxn) (unat (wLength r) mod 256)),
            ControlTransmit a (of_nat (min (unat dxn) (unat (wLength r) mod 256))) False])"
proof -
  have u: "unat (ucast (wLength r) :: 8 word) = unat (wLength r) mod 256"
    by (simp add: unsigned_ucast_eq take_bit_eq_mod)
  show ?thesis
  proof (cases "dxn > ucast (wLength r)")
    case True
    then have "unat (ucast (wLength r) :: 8 word) < unat dxn"
      by (simp add: word_less_nat_alt)
    then have m: "min (unat dxn) (unat (wLength r) mod 256) = unat (ucast (wLength r) :: 8 word)"
      using u by simp
    have z: "dxn \<noteq> 0" using True by (auto simp: word_less_nat_alt)
    have c: "(of_nat (unat (ucast (wLength r) :: 8 word)) :: 32 word) = ucast (ucast (wLength r) :: 8 word)"
      by simp
    show ?thesis using True z
      by (simp add: transmit_calls_def Let_def word_gt_0 m c del: of_nat_unat)
  next
    case False
    then have "unat dxn \<le> unat (ucast (wLength r) :: 8 word)"
      by (simp add: word_less_nat_alt)
    then have m: "min (unat dxn) (unat (wLength r) mod 256) = unat dxn"
      using u by simp
    have c: "(of_nat (unat dxn) :: 32 word) = ucast dxn"
      by simp
    show ?thesis using False
      by (simp add: transmit_calls_def Let_def word_gt_0 m c del: of_nat_unat)
  qed
qed

lemma controlDescriptorCDCACM_transmit:
  assumes "controlDescriptorCDCACM p r m = Inr m'"
  shows "dhw_calls (m_dhw m') = dhw_calls (m_dhw m) @
     (let a = CDCACM_dx (nat (class_config (dcd_cc (m_dcd m)) - 1));
          dxn = the (dxnCDCACM p r m);
          n = min (unat dxn) (unat (wLength r) mod 256)
      in if dxn = 0 then []
         else [FlushCache a n, ControlTransmit a (of_nat n) False])"
  using controlDescriptorCDCACM_Inr [OF assms]
  by (simp add: transmit_calls_length Let_def)

lemma controlDescriptorHID_transmit:
  assumes "controlDescriptorHID p r m = Inr m'"
  shows "dhw_calls (m_dhw m') = dhw_calls (m_dhw m) @
     (let a = HID_dx (nat (class_config (dcd_cc (m_dcd m)) - 1));
          dxn = the (dxnHID p r m);
          n = min (unat dxn) (unat (wLength r) mod 256)
      in if dxn = 0 then []
         else [FlushCache a n, ControlTransmit a (of_nat n) False])"
  using controlDescriptorHID_Inr [OF assms]
  by (simp add: transmit_calls_length Let_def)

text \<open>
  C4. The claim is that the length passed to \<open>controlTransmit\<close> is
  \<open>min(dxn, wLength)\<close> for any \<open>wLength\<close> up to 0xFFFF. The responders
  compare \<open>dxn\<close> with \<open>uint8(sup.wLength)\<close>, so the length is
  \<open>min(dxn, wLength mod 256)\<close> (the two lemmas above). For GET_DESCRIPTOR of
  the device descriptor with \<open>wLength\<close> = 0x0100 the assembled length is 18,
  \<open>min(18, 0x0100)\<close> is 18, and the responder transmits 0 bytes.
\<close>

theorem descriptor_length_truncates_wLength:
  "dxnCDCACM example_platform example_get_device_256 (example_machine 1 dcdSetup_zero)
     = Some 18 \<and>
   map_sum id (\<lambda>m. dhw_calls (m_dhw m))
     (controlDescriptorCDCACM example_platform example_get_device_256
        (example_machine 1 dcdSetup_zero))
     = Inr [FlushCache (CDCACM_dx 0) 0, ControlTransmit (CDCACM_dx 0) 0 False] \<and>
   min (unat (18 :: 8 word)) (unat (wLength example_get_device_256)) = 18"
proof -
  have d: "descriptorCDCACM example_platform example_get_device_256 example_acm =
      Inr (example_acm\<lparr>acm_dx := example_device @ [0, 0]\<rparr>, 18)"
    by (simp add: descriptorCDCACM_def example_get_device_256_def Let_def go_slice_def
        go_copy_def descTypeDevice_def descLengthDevice_def example_acm_def
        example_device_def)
  have i: "go_index (descCDCACM (example_machine 1 dcdSetup_zero))
      (class_config (dcd_cc (m_dcd (example_machine 1 dcdSetup_zero))) - 1) = Inr example_acm"
    by (simp add: go_index_def example_machine_def example_dcd_def)
  have x: "dxnCDCACM example_platform example_get_device_256 (example_machine 1 dcdSetup_zero)
     = Some 18"
    by (simp add: dxnCDCACM_def i d)
  have w: "(ucast (wLength example_get_device_256) :: 8 word) = 0"
    by (simp add: example_get_device_256_def)
  have c: "map_sum id (\<lambda>m. dhw_calls (m_dhw m))
     (controlDescriptorCDCACM example_platform example_get_device_256
        (example_machine 1 dcdSetup_zero))
     = Inr [FlushCache (CDCACM_dx 0) 0, ControlTransmit (CDCACM_dx 0) 0 False]"
    apply (simp add: controlDescriptorCDCACM_def i d Let_def w)
    apply (simp add: example_machine_def example_dcd_def example_dhw_def example_acm_def
        example_device_def)
    done
  show ?thesis using x c by (simp add: example_get_device_256_def)
qed

subsection \<open>Language of a string descriptor\<close>

lemma low_byte_zero:
  assumes "(ucast (w :: 16 word) :: 8 word) = 0"
  shows "w AND 0xFF = 0"
proof -
  have "w AND mask 8 = ucast (ucast w :: 8 word)"
    by (rule bit_word_eqI) (auto simp: bit_and_iff bit_mask_iff bit_ucast_iff)
  then have "w AND mask 8 = 0" using assms by simp
  then show ?thesis by (simp add: mask_eq_exp_minus_1)
qed

lemma stringDescriptor_language:
  assumes "(ucast (wValue r) :: 8 word) = 0" and "locale \<noteq> []"
  shows "stringDescriptor p sfx r locale =
     (case descriptor (locale ! (if unat (wIndex r) < length locale then unat (wIndex r) else 0)) of
        [] \<Rightarrow> Inl IndexOutOfRange
      | sd # ds \<Rightarrow> Inr (locale, Some sd))"
proof -
  have z: "wValue r AND 0xFF = 0" using assms(1) by (rule low_byte_zero)
  have l: "0 < length locale" using assms(2) by simp
  have u: "nat (uint (wIndex r)) = unat (wIndex r)" by simp
  show ?thesis
  proof (cases "unat (wIndex r) < length locale")
    case True
    then have "uint (wIndex r) < int (length locale)"
      by (metis u nat_less_iff uint_nonnegative)
    then show ?thesis using True assms(1) z
      by (simp add: stringDescriptor_def go_index_def Let_def split: list.splits)
  next
    case False
    then have "\<not> uint (wIndex r) < int (length locale)"
      by (metis u nat_less_iff uint_nonnegative)
    then show ?thesis using False assms(1) z l
      by (simp add: stringDescriptor_def go_index_def Let_def split: list.splits)
  qed
qed

text \<open>
  C8, as amended. For a string-descriptor request with string index 0 (the
  low byte of \<open>wValue\<close>) on a non-empty \<open>locale\<close>, and for every \<open>wIndex\<close>,
  both responders take the descriptor \<open>sd\<close> at \<open>locale[code].descriptor[0]\<close>
  where \<open>code\<close> is \<open>wIndex\<close> when \<open>wIndex < len(locale)\<close> and 0 otherwise; they
  copy its first \<open>sd[0]\<close> bytes into the response scratch and assemble the
  length \<open>sd[0]\<close>.
\<close>

theorem language_descriptor_selected:
  "drop_bit 8 (wValue r) = descTypeString \<and> (ucast (wValue r) :: 8 word) = 0 \<and>
   locale \<noteq> [] \<and>
   code = (if unat (wIndex r) < length locale then unat (wIndex r) else 0) \<and>
   descriptor (locale ! code) \<noteq> [] \<and> sd = descriptor (locale ! code) ! 0 \<and>
   sd \<noteq> [] \<and> unat (sd ! 0) \<le> length sd \<Longrightarrow>
   stringDescriptor p sfx r locale = Inr (locale, Some sd) \<and>
   (acm_locale acm = locale \<longrightarrow>
      descriptorCDCACM p r acm =
        Inr (acm\<lparr>acm_dx := go_copy (acm_dx acm) (take (unat (sd ! 0)) sd)\<rparr>, sd ! 0)) \<and>
   (hid_locale hid = locale \<longrightarrow>
      descriptorHID p r hid =
        Inr (hid\<lparr>hid_dx := go_copy (hid_dx hid) (take (unat (sd ! 0)) sd)\<rparr>, sd ! 0))"
proof -
  assume a: "drop_bit 8 (wValue r) = descTypeString \<and> (ucast (wValue r) :: 8 word) = 0 \<and>
   locale \<noteq> [] \<and>
   code = (if unat (wIndex r) < length locale then unat (wIndex r) else 0) \<and>
   descriptor (locale ! code) \<noteq> [] \<and> sd = descriptor (locale ! code) ! 0 \<and>
   sd \<noteq> [] \<and> unat (sd ! 0) \<le> length sd"
  obtain ds where d: "descriptor (locale ! code) = sd # ds"
    using a by (cases "descriptor (locale ! code)") auto
  have e: "code = (if unat (wIndex r) < length locale then unat (wIndex r) else 0)"
    using a by simp
  have s: "\<And>sfx. stringDescriptor p sfx r locale = Inr (locale, Some sd)"
  proof -
    fix sfx
    have "stringDescriptor p sfx r locale =
      (case descriptor (locale ! code) of
        [] \<Rightarrow> Inl IndexOutOfRange
      | sd # ds \<Rightarrow> Inr (locale, Some sd))"
      unfolding e using a by (intro stringDescriptor_language) auto
    then show "stringDescriptor p sfx r locale = Inr (locale, Some sd)"
      by (simp add: d)
  qed
  have c: "\<And>dx. stringCopy dx (Some sd) =
      Inr (go_copy dx (take (unat (sd ! 0)) sd), sd ! 0)"
    using a by (auto simp: stringCopy_def go_index_def go_slice_def)
  have ty: "drop_bit 8 (wValue r) = descTypeString" and ne: "locale \<noteq> []"
    using a by simp_all
  have t: "descTypeString \<noteq> descTypeDevice" "descTypeString \<noteq> descTypeConfigure"
    by (simp_all add: descTypeString_def descTypeDevice_def descTypeConfigure_def)
  have 1: "descriptorCDCACM p r acm =
        Inr (acm\<lparr>acm_dx := go_copy (acm_dx acm) (take (unat (sd ! 0)) sd)\<rparr>, sd ! 0)"
    if "acm_locale acm = locale"
    using ty ne t that by (simp add: descriptorCDCACM_def Let_def s c)
  have 2: "descriptorHID p r hid =
        Inr (hid\<lparr>hid_dx := go_copy (hid_dx hid) (take (unat (sd ! 0)) sd)\<rparr>, sd ! 0)"
    if "hid_locale hid = locale"
    using ty ne t that by (simp add: descriptorHID_def Let_def s c)
  show ?thesis using s 1 2 by simp
qed

theorem language_descriptor_selected_witness:
  "stringDescriptor example_platform '' CDC-ACM'' (example_get_language 1) example_locale
     = Inr (example_locale, Some [4, 3, 0x07, 0x04]) \<and>
   descriptorCDCACM example_platform (example_get_language 1) example_acm =
     Inr (example_acm\<lparr>acm_dx := [4, 3, 0x07, 0x04, 0, 0, 0, 0, 0, 0,
                                  0, 0, 0, 0, 0, 0, 0, 0, 0, 0]\<rparr>, 4)"
  using language_descriptor_selected
    [of "example_get_language 1" example_locale 1 "[4, 3, 0x07, 0x04]"
        example_platform "'' CDC-ACM''" example_acm example_hid]
  by (simp add: example_get_language_def example_locale_def descTypeString_def
      example_acm_def go_copy_def)

text \<open>
  C8 as stated fails: with two languages and \<open>wIndex\<close> = 5 the claim's
  \<open>min(wIndex, len(locale) - 1)\<close> is 1, the second language, and the
  responder takes the descriptor of the first.
\<close>

theorem language_descriptor_not_last:
  "stringDescriptor example_platform '' CDC-ACM'' (example_get_language 5) example_locale
     = Inr (example_locale, Some [4, 3, 0x09, 0x04]) \<and>
   descriptor (example_locale !
       min (unat (wIndex (example_get_language 5))) (length example_locale - 1)) ! 0
     = [4, 3, 0x07, 0x04]"
  by (simp add: stringDescriptor_def example_get_language_def example_locale_def
      go_index_def Let_def)

subsection \<open>Completion of HID SET_REPORT on the serial interface\<close>

lemma bit_byte_in_u32:
  "bit (push_bit k (ucast (w :: 8 word)) :: 32 word) j \<longleftrightarrow>
     k \<le> j \<and> j < 32 \<and> j - k < 8 \<and> bit w (j - k)"
  by (auto simp add: bit_push_bit_iff bit_ucast_iff dest: bit_imp_le_length)

lemma bit_packU32:
  "bit (packU32 [a, b, c, d]) n \<longleftrightarrow>
     (if n < 8 then bit a n
      else if n < 16 then bit b (n - 8)
      else if n < 24 then bit c (n - 16)
      else bit d (n - 24))"
proof -
  have e: "(ucast a :: 32 word) = push_bit 0 (ucast a)" by simp
  show ?thesis
    unfolding packU32_def
    apply (simp only: nth_Cons_0 nth_Cons_Suc nth_Cons_numeral numeral_2_eq_2 numeral_3_eq_3
        One_nat_def diff_Suc_1 pred_numeral_simps Num.BitM.simps eval_nat_numeral diff_Suc_Suc
        diff_zero)
    apply (subst e)
    apply (simp only: bit_or_iff bit_byte_in_u32)
    apply (cases "n < 8"; cases "n < 16"; cases "n < 24"; cases "n < 32")
    apply (auto dest: bit_imp_le_length)
    done
qed

lemma packU32_bytes:
  "a = ucast (packU32 [a, b, c, d])"
  "b = ucast (drop_bit 8 (packU32 [a, b, c, d]))"
  "c = ucast (drop_bit 16 (packU32 [a, b, c, d]))"
  "d = ucast (drop_bit 24 (packU32 [a, b, c, d]))"
  by (rule bit_word_eqI;
      simp only: bit_ucast_iff bit_drop_bit_eq comp_def bit_packU32;
      auto dest: bit_imp_le_length)+

lemma packU32_trigger:
  "packU32 [a, b, c, d] = 0x68C245A9 \<longleftrightarrow> [a, b, c, d] = [0xA9, 0x45, 0xC2, 0x68]"
proof
  assume h: "packU32 [a, b, c, d] = 0x68C245A9"
  have "a = 0xA9" by (subst packU32_bytes(1) [of a b c d]) (simp add: h)
  moreover have "b = 0x45" by (subst packU32_bytes(2) [of b a c d]) (simp add: h)
  moreover have "c = 0xC2" by (subst packU32_bytes(3) [of c a b d]) (simp add: h)
  moreover have "d = 0x68" by (subst packU32_bytes(4) [of d a b c]) (simp add: h)
  ultimately show "[a, b, c, d] = [0xA9, 0x45, 0xC2, 0x68]" by simp
next
  assume "[a, b, c, d] = [0xA9, 0x45, 0xC2, 0x68]"
  then show "packU32 [a, b, c, d] = 0x68C245A9" by (simp add: packU32_def)
qed

lemma take4:
  assumes "4 \<le> length xs"
  shows "take 4 xs = [xs ! 0, xs ! 1, xs ! 2, xs ! 3]"
proof -
  obtain a b c d ys where "xs = a # b # c # d # ys"
    using assms by (cases xs; (cases "tl xs"; (cases "tl (tl xs)"; cases "tl (tl (tl xs))")))
      auto
  then show ?thesis by simp
qed

lemma packU32_take4:
  assumes "4 \<le> length xs"
  shows "packU32 (take 4 xs) = 0x68C245A9 \<longleftrightarrow> take 4 xs = [0xA9, 0x45, 0xC2, 0x68]"
  by (simp only: take4 [OF assms] packU32_trigger)

text \<open>
  C9. At the completion of an HID SET_REPORT transfer (class request,
  interface, OUT) addressed to the serial interface, \<open>enableSOF(true,
  descHIDInterfaceCount)\<close> is called exactly when \<open>wValue >> 8\<close> is the string
  descriptor type, \<open>wLength\<close> is at least 4 and the first four bytes of the
  scratch \<open>cx\<close> are A9 45 C2 68, which is when they read 0x68C245A9 as a
  little-endian \<open>u32\<close>; in every other case nothing is called. The table
  entry of the bound configuration exists and its scratch has four bytes;
  the serial and keyboard interfaces are cases of one \<open>switch\<close>.
\<close>

theorem enable_sof_on_trigger:
  "dhw_setup (m_dhw m) = r \<and>
   bmRequestType r AND descRequestTypeTypeMsk = descRequestTypeTypeClass \<and>
   bmRequestType r AND (descRequestTypeRecipientMsk OR descRequestTypeDirMsk) =
     (descRequestTypeRecipientInterface OR descRequestTypeDirOut) \<and>
   bRequest r = descHIDRequestSetReport \<and>
   class_id (dcd_cc (m_dcd m)) = classDeviceHID p \<and>
   wIndex r = descHIDInterfaceSerial p \<and>
   descHIDInterfaceSerial p \<noteq> descHIDInterfaceKeyboard p \<and>
   go_index (descHID m) (class_config (dcd_cc (m_dcd m)) - 1) = Inr hid \<and>
   4 \<le> length (hid_cx hid) \<Longrightarrow>
   (let trigger = (drop_bit 8 (wValue r) = descTypeString \<and> 4 \<le> wLength r \<and>
                   take 4 (hid_cx hid) = [0xA9, 0x45, 0xC2, 0x68]);
        m' = (if trigger then hal (EnableSOF True (descHIDInterfaceCount p)) m else m)
    in controlComplete p m = Inr m' \<and>
       event p \<lparr>ev_id = dcdEventControlComplete, ev_setup = s, ev_mask = k\<rparr> m =
         Inr (set_setup dcdSetup_zero m') \<and>
       dhw_calls (m_dhw m') =
         dhw_calls (m_dhw m) @
           (if trigger then [EnableSOF True (descHIDInterfaceCount p)] else []) \<and>
       (take 4 (hid_cx hid) = [0xA9, 0x45, 0xC2, 0x68] \<longleftrightarrow>
          packU32 (take 4 (hid_cx hid)) = 0x68C245A9))"
proof -
  assume a: "dhw_setup (m_dhw m) = r \<and>
   bmRequestType r AND descRequestTypeTypeMsk = descRequestTypeTypeClass \<and>
   bmRequestType r AND (descRequestTypeRecipientMsk OR descRequestTypeDirMsk) =
     (descRequestTypeRecipientInterface OR descRequestTypeDirOut) \<and>
   bRequest r = descHIDRequestSetReport \<and>
   class_id (dcd_cc (m_dcd m)) = classDeviceHID p \<and>
   wIndex r = descHIDInterfaceSerial p \<and>
   descHIDInterfaceSerial p \<noteq> descHIDInterfaceKeyboard p \<and>
   go_index (descHID m) (class_config (dcd_cc (m_dcd m)) - 1) = Inr hid \<and>
   4 \<le> length (hid_cx hid)"
  have len: "4 \<le> length (hid_cx hid)" using a by simp
  have pk: "packU32 (take 4 (hid_cx hid)) = 0x68C245A9 \<longleftrightarrow>
      take 4 (hid_cx hid) = [0xA9, 0x45, 0xC2, 0x68]"
    using len by (rule packU32_take4)
  have sl: "go_slice (hid_cx hid) 0 4 = Inr (take 4 (hid_cx hid))"
    using len by (simp add: go_slice_def)
  have ne: "descHIDRequestSetReport \<noteq> descCDCRequestSetLineCoding"
    "descHIDRequestSetReport \<noteq> descCDCRequestSetControlLineState"
    by (simp_all add: request_defs)
  have cc: "controlComplete p m =
      Inr (if drop_bit 8 (wValue r) = descTypeString \<and> 4 \<le> wLength r \<and>
              take 4 (hid_cx hid) = [0xA9, 0x45, 0xC2, 0x68]
           then hal (EnableSOF True (descHIDInterfaceCount p)) m else m)"
    using a ne pk
    by (simp add: controlComplete_def Let_def sl eq_commute [of "0x68C245A9"])
  show ?thesis
    unfolding Let_def
    by (simp add: cc event_ControlComplete pk)
qed

theorem enable_sof_on_trigger_witness:
  "controlComplete example_platform (example_machine 2 example_set_report) =
     Inr (hal (EnableSOF True 5) (example_machine 2 example_set_report))"
  using enable_sof_on_trigger
    [of "example_machine 2 example_set_report" example_set_report example_platform
        example_hid dcdSetup_zero 0]
  by (simp add: example_set_report_def example_machine_def example_dhw_def example_dcd_def
      example_platform_def example_hid_def request_defs descTypeString_def go_index_def
      Let_def)

subsection \<open>The stored SETUP packet\<close>

lemma keeps_descriptorCDCACM:
  "keeps_setup m (case controlDescriptorCDCACM p r m of
                    Inl e \<Rightarrow> Inl e | Inr m' \<Rightarrow> Inr (stg, m'))"
  by (cases "controlDescriptorCDCACM p r m")
     (auto simp: keeps_setup_def dest: controlDescriptorCDCACM_Inr)

lemma keeps_descriptorHID:
  "keeps_setup m (case controlDescriptorHID p r m of
                    Inl e \<Rightarrow> Inl e | Inr m' \<Rightarrow> Inr (stg, m'))"
  by (cases "controlDescriptorHID p r m")
     (auto simp: keeps_setup_def dest: controlDescriptorHID_Inr)

lemma controlSetup_keeps_setup: "keeps_setup m (controlSetup p r m)"
  apply (subst controlSetup.simps)
  apply (simp only: Let_def)
  apply (intro conjI impI | split if_split
         | (rule keeps_descriptorCDCACM)
         | (rule keeps_descriptorHID)
         | (simp add: keeps_setup_def event_DeviceConfiguration hal_def
                split: sum.split; fail))+
  done

lemma controlSetup_setup:
  "controlSetup p r m = Inr (stg, m') \<Longrightarrow> dhw_setup (m_dhw m') = dhw_setup (m_dhw m)"
  using controlSetup_keeps_setup [of m p r] by (simp add: keeps_setup_def)

lemma controlComplete_setup:
  "controlComplete p m = Inr m' \<Longrightarrow> dhw_setup (m_dhw m') = dhw_setup (m_dhw m)"
  by (auto simp: controlComplete_def Let_def hal_def split: if_splits sum.splits)

lemma event_setup:
  assumes "event p e m = Inr m'"
  shows "dhw_setup (m_dhw m') =
     (if ev_id e = dcdEventControlSetup then ev_setup e
      else if ev_id e = dcdEventControlComplete then dcdSetup_zero
      else dhw_setup (m_dhw m))"
proof (cases "ev_id e = dcdEventControlSetup")
  case True
  then have "event p e m =
     (case controlSetup p (ev_setup e) (set_setup (ev_setup e) m) of
        Inl x \<Rightarrow> Inl x
      | Inr (stg, m') \<Rightarrow>
          if stg = dcdStageStall then
            Inr (hal (ControlStall True (dcdSetup_direction (ev_setup e))) (set_stage stg m'))
          else Inr (set_stage stg m'))"
    by (subst event.simps) (simp add: event_ids)
  then show ?thesis using assms True
    by (auto split: sum.splits prod.splits if_splits dest!: controlSetup_setup)
next
  case False
  note nc = False
  show ?thesis
  proof (cases "ev_id e = dcdEventControlComplete")
    case True
    then have "event p e m =
       (case controlComplete p m of Inl x \<Rightarrow> Inl x
        | Inr m' \<Rightarrow> Inr (set_setup dcdSetup_zero m'))"
      by (subst event.simps) (simp add: event_ids)
    then show ?thesis using assms True nc
      by (auto split: sum.splits)
  next
    case False
    have "dhw_setup (m_dhw m') = dhw_setup (m_dhw m)"
      using assms nc False
      by (subst (asm) event.simps)
         (auto split: if_splits prod.splits simp: doSetState_def hal_def)
    then show ?thesis using nc False by simp
  qed
qed

lemma run_setup:
  "run p evs m = Inr m' \<Longrightarrow> dhw_setup (m_dhw m) = stored a \<Longrightarrow>
   dhw_setup (m_dhw m') = stored (inflight a evs)"
proof (induction evs arbitrary: m a)
  case Nil
  then show ?case by simp
next
  case (Cons e es)
  from Cons.prems(1) obtain m1 where e: "event p e m = Inr m1" and r: "run p es m1 = Inr m'"
    by (auto split: sum.splits)
  have "dhw_setup (m_dhw m1) =
      stored (if ev_id e = dcdEventControlSetup then Some (ev_setup e)
               else if ev_id e = dcdEventControlComplete then None
               else a)"
    using event_setup [OF e] Cons.prems(2) by (simp add: stored_def)
  from Cons.IH [OF r this] show ?case by simp
qed

lemma controlComplete_returns:
  assumes "tables_ok p m"
  shows "\<exists>m'. controlComplete p m = Inr m'"
  using assms
  by (auto simp: controlComplete_def tables_ok_def Let_def go_index_def go_slice_def)

text \<open>
  C5, as amended. Starting with no transfer active and the zero packet
  stored, after any sequence of events the stored SETUP packet is the
  packet of the active transfer while one is active, whatever stage
  \<open>controlSetup\<close> returned for it, and the zero packet while none is; so it
  is non-zero exactly when a transfer is active and its SETUP packet is not
  the zero packet. Processing \<open>ControlComplete\<close> leaves the zero packet
  stored whatever \<open>controlComplete\<close> did, and it returns whenever the table
  entry of the class binding exists.
\<close>

theorem stored_setup_follows_transfer:
  "(dhw_setup (m_dhw m) = dcdSetup_zero \<and> run p evs m = Inr m' \<longrightarrow>
      dhw_setup (m_dhw m') =
        (case inflight None evs of None \<Rightarrow> dcdSetup_zero | Some P \<Rightarrow> P)) \<and>
   (event p \<lparr>ev_id = dcdEventControlComplete, ev_setup = s, ev_mask = k\<rparr> m = Inr m' \<longrightarrow>
      dhw_setup (m_dhw m') = dcdSetup_zero) \<and>
   (tables_ok p m \<longrightarrow>
      (\<exists>m'. event p \<lparr>ev_id = dcdEventControlComplete, ev_setup = s, ev_mask = k\<rparr> m
               = Inr m'))"
proof (intro conjI impI)
  assume "dhw_setup (m_dhw m) = dcdSetup_zero \<and> run p evs m = Inr m'"
  then show "dhw_setup (m_dhw m') =
        (case inflight None evs of None \<Rightarrow> dcdSetup_zero | Some P \<Rightarrow> P)"
    using run_setup [of p evs m m' None] by (simp add: stored_def)
next
  assume "event p \<lparr>ev_id = dcdEventControlComplete, ev_setup = s, ev_mask = k\<rparr> m = Inr m'"
  then show "dhw_setup (m_dhw m') = dcdSetup_zero"
    by (auto simp: event_ControlComplete split: sum.splits)
next
  assume "tables_ok p m"
  then obtain m1 where "controlComplete p m = Inr m1"
    using controlComplete_returns by blast
  then show "\<exists>m'. event p \<lparr>ev_id = dcdEventControlComplete, ev_setup = s, ev_mask = k\<rparr> m
               = Inr m'"
    by (simp add: event_ControlComplete)
qed

lemma example_vendor_stall:
  "controlSetup example_platform example_vendor_in m = Inr (dcdStageStall, m)"
  by (rule unmatched_stall) (simp add: vendor_unmatched example_vendor_in_def request_defs)

lemma example_zero_stall:
  "controlSetup example_platform dcdSetup_zero m = Inr (dcdStageStall, m)"
  by (rule unmatched_stall)
     (simp add: spec_matched_def dcdSetup_zero_def Let_def)

theorem stored_setup_follows_transfer_witness:
  "dhw_setup (m_dhw
     (set_setup dcdSetup_zero
        (hal (ControlStall True 1)
          (set_stage dcdStageStall
            (set_setup example_vendor_in (example_machine 1 dcdSetup_zero))))))
   = dcdSetup_zero \<and>
   dhw_setup (m_dhw
     (hal (ControlStall True 1)
       (set_stage dcdStageStall
         (set_setup example_vendor_in (example_machine 1 dcdSetup_zero)))))
   = example_vendor_in"
proof -
  let ?cs = "\<lparr>ev_id = dcdEventControlSetup, ev_setup = example_vendor_in, ev_mask = 0\<rparr>"
  let ?cc = "\<lparr>ev_id = dcdEventControlComplete, ev_setup = dcdSetup_zero, ev_mask = 0\<rparr>"
  let ?m = "example_machine 1 dcdSetup_zero"
  let ?m1 = "hal (ControlStall True 1)
       (set_stage dcdStageStall (set_setup example_vendor_in ?m))"
  have d: "dcdSetup_direction example_vendor_in = 1"
    by (simp add: direction_bit example_vendor_in_def)
  have e1: "event example_platform ?cs ?m = Inr ?m1"
    by (simp add: event_ControlSetup example_vendor_stall d)
  have c: "controlComplete example_platform ?m1 = Inr ?m1"
    by (simp add: controlComplete_def Let_def example_vendor_in_def request_defs)
  have e2: "event example_platform ?cc ?m1 = Inr (set_setup dcdSetup_zero ?m1)"
    by (simp add: event_ControlComplete c)
  have r1: "run example_platform [?cs] ?m = Inr ?m1"
    by (simp add: e1)
  have r2: "run example_platform [?cs, ?cc] ?m = Inr (set_setup dcdSetup_zero ?m1)"
    by (simp add: e1 e2)
  have z: "dhw_setup (m_dhw ?m) = dcdSetup_zero"
    by (simp add: example_machine_def example_dhw_def)
  show ?thesis
    using stored_setup_follows_transfer
        [of ?m example_platform "[?cs, ?cc]" "set_setup dcdSetup_zero ?m1" dcdSetup_zero 0]
      stored_setup_follows_transfer
        [of ?m example_platform "[?cs]" ?m1 dcdSetup_zero 0]
    by (simp add: r1 r2 z event_ids)
qed

text \<open>
  C5 as stated fails: the SETUP packet 00 00 00 00 00 00 00 00 opens a
  transfer (which \<open>controlSetup\<close> stalls), and while it is active the stored
  packet is the zero packet.
\<close>

theorem stored_setup_zero_while_active:
  "run example_platform
     [\<lparr>ev_id = dcdEventControlSetup, ev_setup = dcdSetup_zero, ev_mask = 0\<rparr>]
     (example_machine 1 dcdSetup_zero)
   = Inr (hal (ControlStall True 0)
           (set_stage dcdStageStall (example_machine 1 dcdSetup_zero))) \<and>
   inflight None [\<lparr>ev_id = dcdEventControlSetup, ev_setup = dcdSetup_zero, ev_mask = 0\<rparr>]
   = Some dcdSetup_zero \<and>
   dhw_setup (m_dhw (hal (ControlStall True 0)
           (set_stage dcdStageStall (example_machine 1 dcdSetup_zero))))
   = dcdSetup_zero"
proof -
  have s: "set_setup dcdSetup_zero (example_machine 1 dcdSetup_zero)
      = example_machine 1 dcdSetup_zero"
    by (simp add: set_setup_def example_machine_def example_dhw_def)
  have d: "dcdSetup_direction dcdSetup_zero = 0"
    by (simp add: direction_bit dcdSetup_zero_def)
  show ?thesis
    by (simp add: event_ControlSetup example_zero_stall s d)
       (simp add: example_machine_def example_dhw_def)
qed

end
